theory Spec2Isabelle
  imports Complex_Main
begin

section \<open>Errors\<close>

text \<open>
  The exceptions the modelled code can raise. A function that can raise returns
  \<open>error + 'a\<close>, with \<open>Inl\<close> for the exception.
\<close>

datatype error =
    TypeError
  | ValueError
  | ZeroDivisionError
  | RuntimeError
  | AssertionError
  | AttributeError
  | NameError
  | Exception string

section \<open>Tensors\<close>

text \<open>
  The data of an image tensor of shape \<open>(1, C, H, W)\<close>: a list of channels, each a
  list of rows. The tensor itself carries its gradient buffer (\<open>None\<close> before the
  first backward pass). The type \<open>'e\<close> of the elements and their arithmetic are
  parameters: the source computes in floating point, and two arithmetics are given below.
\<close>

type_synonym 'e tdata = "'e list list list"

record 'e tensor =
  data :: "'e tdata"
  grad :: "'e tdata option"

definition flatten :: "'e tdata \<Rightarrow> 'e list" where
  "flatten t = concat (concat t)"

definition shape :: "'e tdata \<Rightarrow> nat list list" where
  "shape t = map (map length) t"

definition tmap :: "('e \<Rightarrow> 'e) \<Rightarrow> 'e tdata \<Rightarrow> 'e tdata" where
  "tmap f t = map (map (map f)) t"

definition tzip :: "('e \<Rightarrow> 'e \<Rightarrow> 'e) \<Rightarrow> 'e tdata \<Rightarrow> 'e tdata \<Rightarrow> 'e tdata" where
  "tzip f a b = map2 (map2 (map2 f)) a b"

text \<open>
  What \<open>gradient_ascent\<close> uses of the tensor library: the four elementwise operations,
  the reductions \<open>torch.mean\<close> and \<open>torch.std\<close> over all elements, the binary
  \<open>torch.min\<close> and \<open>torch.max\<close>, and the element that stands for a Python number.
\<close>

record 'e torch_ops =
  t_add :: "'e \<Rightarrow> 'e \<Rightarrow> 'e"
  t_sub :: "'e \<Rightarrow> 'e \<Rightarrow> 'e"
  t_mul :: "'e \<Rightarrow> 'e \<Rightarrow> 'e"
  t_div :: "'e \<Rightarrow> 'e \<Rightarrow> 'e"
  t_mean :: "'e list \<Rightarrow> 'e"
  t_std :: "'e list \<Rightarrow> 'e"
  t_min :: "'e \<Rightarrow> 'e \<Rightarrow> 'e"
  t_max :: "'e \<Rightarrow> 'e \<Rightarrow> 'e"
  t_scalar :: "real \<Rightarrow> 'e"

definition zeros_like :: "'e torch_ops \<Rightarrow> 'e tdata \<Rightarrow> 'e tdata" where
  "zeros_like ops t = tmap (\<lambda>_. t_scalar ops 0) t"

subsection \<open>Exact arithmetic\<close>

text \<open>
  Exact real numbers, extended with the one value \<open>NaN\<close> for a quotient by zero,
  which every later operation propagates. This is the arithmetic of the statements that
  are made "in exact arithmetic"; it has no rounding, no underflow and no infinities.
  The only division of \<open>gradient_ascent\<close> divides centred values by their standard
  deviation, which in exact arithmetic is zero only when all of them are zero (lemma
  \<open>std_zero_centred\<close> below), so the quotient by zero that occurs is \<open>0 / 0\<close>.
\<close>

datatype elem = Num real | NaN

fun eadd :: "elem \<Rightarrow> elem \<Rightarrow> elem" where
  "eadd (Num a) (Num b) = Num (a + b)"
| "eadd _ _ = NaN"

fun esub :: "elem \<Rightarrow> elem \<Rightarrow> elem" where
  "esub (Num a) (Num b) = Num (a - b)"
| "esub _ _ = NaN"

fun emul :: "elem \<Rightarrow> elem \<Rightarrow> elem" where
  "emul (Num a) (Num b) = Num (a * b)"
| "emul _ _ = NaN"

fun ediv :: "elem \<Rightarrow> elem \<Rightarrow> elem" where
  "ediv (Num a) (Num b) = (if b = 0 then NaN else Num (a / b))"
| "ediv _ _ = NaN"

fun esqrt :: "elem \<Rightarrow> elem" where
  "esqrt (Num a) = Num (sqrt a)"
| "esqrt NaN = NaN"

text \<open>Binary \<open>torch.min\<close> and \<open>torch.max\<close> return \<open>nan\<close> when either operand is.\<close>

fun emin :: "elem \<Rightarrow> elem \<Rightarrow> elem" where
  "emin (Num a) (Num b) = Num (min a b)"
| "emin _ _ = NaN"

fun emax :: "elem \<Rightarrow> elem \<Rightarrow> elem" where
  "emax (Num a) (Num b) = Num (max a b)"
| "emax _ _ = NaN"

definition esum :: "elem list \<Rightarrow> elem" where
  "esum xs = foldr eadd xs (Num 0)"

text \<open>\<open>torch.mean\<close> of all elements; \<open>nan\<close> on an empty tensor.\<close>

definition torch_mean :: "elem list \<Rightarrow> elem" where
  "torch_mean xs = ediv (esum xs) (Num (real (length xs)))"

text \<open>
  \<open>torch.std\<close> of all elements, with Bessel's correction (the default); \<open>nan\<close> on
  fewer than two elements.
\<close>

definition torch_std :: "elem list \<Rightarrow> elem" where
  "torch_std xs =
     (if length xs < 2 then NaN
      else esqrt (ediv (esum (map (\<lambda>x. emul (esub x (torch_mean xs)) (esub x (torch_mean xs))) xs))
                       (Num (real (length xs) - 1))))"

definition exact_ops :: "elem torch_ops" where
  "exact_ops =
     \<lparr>t_add = eadd, t_sub = esub, t_mul = emul, t_div = ediv, t_mean = torch_mean,
      t_std = torch_std, t_min = emin, t_max = emax, t_scalar = Num\<rparr>"

subsection \<open>Floating point arithmetic\<close>

text \<open>
  A floating point element is a finite number, an infinity or \<open>nan\<close>. How an operation
  rounds, overflows or underflows is not fixed: for the statements about floating point
  the operations are parameters, of which only this is asked (\<open>float_arithmetic\<close>
  below): a sum or a difference of a finite number and a number or infinity, a product of
  a finite non-zero number and a number or infinity, and a quotient of a number or
  infinity by a finite non-zero number are not \<open>nan\<close>; the binary minimum and maximum
  do not round; zero is a floating point number. IEEE 754 arithmetic in any precision and
  rounding mode is such an arithmetic. Nothing is asked of the reductions \<open>torch.mean\<close>
  and \<open>torch.std\<close>.
\<close>

datatype fnum = Fin real | PInf | NInf

datatype fl = Val fnum | Nan

fun fnum_le :: "fnum \<Rightarrow> fnum \<Rightarrow> bool" where
  "fnum_le (Fin a) (Fin b) = (a \<le> b)"
| "fnum_le NInf _ = True"
| "fnum_le _ PInf = True"
| "fnum_le _ _ = False"

fun fl_min :: "fl \<Rightarrow> fl \<Rightarrow> fl" where
  "fl_min (Val a) (Val b) = Val (if fnum_le a b then a else b)"
| "fl_min _ _ = Nan"

fun fl_max :: "fl \<Rightarrow> fl \<Rightarrow> fl" where
  "fl_max (Val a) (Val b) = Val (if fnum_le a b then b else a)"
| "fl_max _ _ = Nan"

definition float_arithmetic :: "fl torch_ops \<Rightarrow> bool" where
  "float_arithmetic ops =
     ((\<forall>a y. y \<noteq> Nan \<longrightarrow> t_add ops (Val (Fin a)) y \<noteq> Nan)
      \<and> (\<forall>a y. y \<noteq> Nan \<longrightarrow> t_sub ops (Val (Fin a)) y \<noteq> Nan)
      \<and> (\<forall>a y. a \<noteq> 0 \<longrightarrow> y \<noteq> Nan \<longrightarrow> t_mul ops (Val (Fin a)) y \<noteq> Nan)
      \<and> (\<forall>x b. x \<noteq> Nan \<longrightarrow> b \<noteq> 0 \<longrightarrow> t_div ops x (Val (Fin b)) \<noteq> Nan)
      \<and> t_min ops = fl_min \<and> t_max ops = fl_max \<and> t_scalar ops 0 = Val (Fin 0))"

text \<open>
  One such arithmetic, used to evaluate the statements on concrete inputs: the IEEE
  operations on finite numbers and infinities without any rounding (the zero has no
  sign: a non-zero number divided by zero takes the sign of the number).
\<close>

fun fnum_sgn :: "fnum \<Rightarrow> int" where
  "fnum_sgn (Fin a) = (if a < 0 then - 1 else if a = 0 then 0 else 1)"
| "fnum_sgn PInf = 1"
| "fnum_sgn NInf = - 1"

definition inf_of_sign :: "int \<Rightarrow> fl" where
  "inf_of_sign s = (if s = 0 then Nan else if 0 < s then Val PInf else Val NInf)"

fun fl_neg :: "fl \<Rightarrow> fl" where
  "fl_neg (Val (Fin a)) = Val (Fin (- a))"
| "fl_neg (Val PInf) = Val NInf"
| "fl_neg (Val NInf) = Val PInf"
| "fl_neg Nan = Nan"

fun fl_add :: "fl \<Rightarrow> fl \<Rightarrow> fl" where
  "fl_add (Val (Fin a)) (Val (Fin b)) = Val (Fin (a + b))"
| "fl_add (Val (Fin a)) (Val y) = Val y"
| "fl_add (Val x) (Val (Fin b)) = Val x"
| "fl_add (Val x) (Val y) = (if x = y then Val x else Nan)"
| "fl_add _ _ = Nan"

definition fl_sub :: "fl \<Rightarrow> fl \<Rightarrow> fl" where
  "fl_sub x y = fl_add x (fl_neg y)"

fun fl_mul :: "fl \<Rightarrow> fl \<Rightarrow> fl" where
  "fl_mul (Val (Fin a)) (Val (Fin b)) = Val (Fin (a * b))"
| "fl_mul (Val x) (Val y) = inf_of_sign (fnum_sgn x * fnum_sgn y)"
| "fl_mul _ _ = Nan"

fun fl_div :: "fl \<Rightarrow> fl \<Rightarrow> fl" where
  "fl_div (Val (Fin a)) (Val (Fin b)) =
     (if b = 0 then inf_of_sign (fnum_sgn (Fin a)) else Val (Fin (a / b)))"
| "fl_div (Val (Fin a)) (Val y) = Val (Fin 0)"
| "fl_div (Val x) (Val (Fin b)) = inf_of_sign (fnum_sgn x * (if b < 0 then - 1 else 1))"
| "fl_div _ _ = Nan"

fun fl_sqrt :: "fl \<Rightarrow> fl" where
  "fl_sqrt (Val (Fin a)) = (if a < 0 then Nan else Val (Fin (sqrt a)))"
| "fl_sqrt (Val PInf) = Val PInf"
| "fl_sqrt _ = Nan"

definition fl_sum :: "fl list \<Rightarrow> fl" where
  "fl_sum xs = foldr fl_add xs (Val (Fin 0))"

definition fl_mean :: "fl list \<Rightarrow> fl" where
  "fl_mean xs = fl_div (fl_sum xs) (Val (Fin (real (length xs))))"

definition fl_std :: "fl list \<Rightarrow> fl" where
  "fl_std xs =
     (if length xs < 2 then Nan
      else fl_sqrt (fl_div (fl_sum (map (\<lambda>x. fl_mul (fl_sub x (fl_mean xs)) (fl_sub x (fl_mean xs))) xs))
                           (Val (Fin (real (length xs) - 1)))))"

definition unrounded_ops :: "fl torch_ops" where
  "unrounded_ops =
     \<lparr>t_add = fl_add, t_sub = fl_sub, t_mul = fl_mul, t_div = fl_div, t_mean = fl_mean,
      t_std = fl_std, t_min = fl_min, t_max = fl_max, t_scalar = (\<lambda>r. Val (Fin r))\<rparr>"

section \<open>Configuration, model, constants and helpers\<close>

text \<open>
  The \<open>config\<close> dictionary, with the keys the modelled functions read. The command
  line parser gives every key a value, so a key is a field. \<open>blend\<close> is the one key
  the code tests against \<open>None\<close>; the image dimensions are a list, empty for \<open>None\<close>.
\<close>

record config =
  input :: string
  input_name :: string
  img_dimensions :: "nat list"
  layers_to_use :: "string list"
  text_prompt :: string
  model_name :: string
  pyramid_size :: int
  pyramid_ratio :: real
  num_gradient_ascent_iterations :: int
  lr :: real
  ouroboros_length :: int
  fps :: int
  blend :: "real option"
  spatial_shift_size :: int
  smoothing_coefficient :: real
  use_noise :: bool

text \<open>
  The network is an opaque callable. \<open>layer_names\<close> is \<open>None\<close> for an object
  without that attribute. \<open>loss_gradient\<close> is the gradient that the forward pass, the
  mean of the mean squared activations of the chosen layers and \<open>loss.backward()\<close>
  leave on the input: a function of the text (given only to a CLIP model), the layer
  indices and the input data.
\<close>

record 'e model =
  class_name :: string
  layer_names :: "string list option"
  loss_gradient :: "string option \<Rightarrow> nat list \<Rightarrow> 'e tdata \<Rightarrow> 'e tdata"

text \<open>
  The constants module is not among the sources; its values are parameters. The image
  bounds are given per channel (a scalar bound is a constant function).
\<close>

record constants =
  LOWER_IMAGE_BOUND :: "nat \<Rightarrow> real"
  UPPER_IMAGE_BOUND :: "nat \<Rightarrow> real"
  FixedImageResolutionClasses :: "string list"
  SUPPORTED_IMAGE_FORMATS :: "string list"
  OUT_VIDEOS_PATH :: string

type_synonym rng = "nat \<Rightarrow> nat"

text \<open>
  What a call of \<open>deep_dream_static_image\<close> leaves: the returned image (\<open>None\<close> for
  the bare \<open>return\<close>), the random generator, and how many pyramid levels and gradient
  ascent steps it has run.
\<close>

record 'img dream =
  result :: "'img option"
  rng_after :: rng
  levels_run :: nat
  steps_run :: nat

text \<open>The values the callers pass: a model, the configuration, an image or \<open>None\<close>.\<close>

datatype ('img, 'e) pyarg = ArgModel "'e model" | ArgConfig config | ArgImage "'img option"

text \<open>
  The helper module \<open>utils.utils\<close> is not among the sources either. Its functions on
  images are parameters, total functions on an image type \<open>'img\<close>; saving an image
  and assembling the video are events of the callers' traces. A frame variable that can
  hold \<open>None\<close> is an \<open>'img option\<close>. The last field is not a helper: it stands for
  what the body of \<open>deep_dream_static_image\<close> does when a parameter is bound to a
  value of another kind than it expects (Python has no parameter types); no statement
  below depends on it.
\<close>

record ('img, 'e) helpers =
  parse_input_file :: "string \<Rightarrow> string"
  load_image :: "string \<Rightarrow> nat list \<Rightarrow> 'img"
  uniform_noise :: "'img \<Rightarrow> 'img"
  pre_process_numpy_img :: "'img \<Rightarrow> 'img"
  post_process_numpy_img :: "'img \<Rightarrow> 'img"
  img_shape :: "'img \<Rightarrow> nat list"
  get_new_shape :: "config \<Rightarrow> nat list \<Rightarrow> nat \<Rightarrow> nat \<times> nat"
  cv_resize :: "'img \<Rightarrow> nat \<times> nat \<Rightarrow> 'img"
  pad_image_to_shape :: "'img \<Rightarrow> nat list \<Rightarrow> 'img"
  extract_original_from_padded :: "'img \<Rightarrow> nat \<times> nat \<Rightarrow> 'img"
  pytorch_input_adapter :: "'img \<Rightarrow> 'e tdata"
  pytorch_output_adapter :: "'e tdata \<Rightarrow> 'img"
  CascadeGaussianSmoothing :: "nat \<Rightarrow> real \<Rightarrow> 'e tdata \<Rightarrow> 'e tdata"
  transform_frame :: "config \<Rightarrow> 'img option \<Rightarrow> 'img option"
  linear_blend :: "'img \<Rightarrow> 'img \<Rightarrow> real \<Rightarrow> 'img"
  body_on_other_kinds :: "(string \<times> ('img, 'e) pyarg) list \<Rightarrow> error + 'img dream"

section \<open>The gradient ascent step\<close>

text \<open>Python's \<open>s in t\<close> on strings: \<open>s\<close> occurs in \<open>t\<close> as a contiguous run.\<close>

fun py_in_str :: "string \<Rightarrow> string \<Rightarrow> bool" where
  "py_in_str s [] = (s = [])"
| "py_in_str s (c # cs) = (take (length s) (c # cs) = s \<or> py_in_str s cs)"

text \<open>
  Steps 0 to 2 of \<open>gradient_ascent\<close> and the read of \<open>input_tensor.grad.data\<close>.
  \<open>torch.stack\<close> raises on an empty list of losses, that is when no layer is
  chosen. Otherwise the backward pass adds the gradient of the loss to the buffer of the
  input, or creates the buffer.
\<close>

definition backward_grad ::
  "'e torch_ops \<Rightarrow> 'e model \<Rightarrow> 'e tensor \<Rightarrow> string \<Rightarrow> nat list \<Rightarrow> error + 'e tdata" where
  "backward_grad ops m t input_text layer_ids_to_use =
     (if layer_ids_to_use = [] then Inl RuntimeError
      else
        let g = loss_gradient m
                  (if py_in_str ''CLIP'' (class_name m) then Some input_text else None)
                  layer_ids_to_use (data t)
        in Inr (case grad t of None \<Rightarrow> g | Some g0 \<Rightarrow> tzip (t_add ops) g0 g))"

text \<open>
  Step 3, smoothing: \<open>sigma\<close> and the cascade of Gaussian kernels of size 9. Python's
  \<open>/\<close> raises on a zero iteration count.
\<close>

definition smoothed_grad ::
  "('img, 'e) helpers \<Rightarrow> config \<Rightarrow> int \<Rightarrow> 'e tdata \<Rightarrow> error + 'e tdata" where
  "smoothed_grad h cfg iteration g =
     (if num_gradient_ascent_iterations cfg = 0 then Inl ZeroDivisionError
      else
        let sigma = (of_int (iteration + 1) / of_int (num_gradient_ascent_iterations cfg)) * 2
                    + smoothing_coefficient cfg
        in Inr (CascadeGaussianSmoothing h 9 sigma g))"

text \<open>Step 3, normalisation: subtract the mean, divide by the standard deviation.\<close>

definition normalize_grad :: "'e torch_ops \<Rightarrow> 'e tdata \<Rightarrow> 'e tdata" where
  "normalize_grad ops smooth_grad =
     (let g_std = t_std ops (flatten smooth_grad);
          g_mean = t_mean ops (flatten smooth_grad)
      in tmap (\<lambda>x. t_div ops x g_std) (tmap (\<lambda>x. t_sub ops x g_mean) smooth_grad))"

text \<open>Step 4: \<open>input_tensor.data += lr * smooth_grad\<close>.\<close>

definition ascent_update :: "'e torch_ops \<Rightarrow> config \<Rightarrow> 'e tdata \<Rightarrow> 'e tdata \<Rightarrow> 'e tdata" where
  "ascent_update ops cfg d smooth_grad =
     tzip (t_add ops) d (tmap (t_mul ops (t_scalar ops (lr cfg))) smooth_grad)"

text \<open>
  Step 5, the clamp: \<open>torch.max(torch.min(input_tensor, UPPER), LOWER)\<close>, the bounds
  broadcast over the rows and columns of their channel.
\<close>

definition clamp_data :: "'e torch_ops \<Rightarrow> constants \<Rightarrow> 'e tdata \<Rightarrow> 'e tdata" where
  "clamp_data ops c d =
     map (\<lambda>(ch, rows).
            map (map (\<lambda>x. t_max ops (t_min ops x (t_scalar ops (UPPER_IMAGE_BOUND c ch)))
                                 (t_scalar ops (LOWER_IMAGE_BOUND c ch)))) rows)
         (zip [0..<length d] d)"

text \<open>
  \<open>gradient_ascent\<close> mutates its tensor; the model returns the tensor after the call.
  The in-place addition of a gradient of another shape raises in torch (broadcasting a
  smaller gradient is not modelled).
\<close>

definition gradient_ascent ::
  "'e torch_ops \<Rightarrow> constants \<Rightarrow> ('img, 'e) helpers \<Rightarrow> config \<Rightarrow> 'e model \<Rightarrow> 'e tensor \<Rightarrow> string
     \<Rightarrow> nat list \<Rightarrow> int \<Rightarrow> error + 'e tensor" where
  "gradient_ascent ops c h cfg m input_tensor input_text layer_ids_to_use iteration =
     (case backward_grad ops m input_tensor input_text layer_ids_to_use of
        Inl e \<Rightarrow> Inl e
      | Inr g \<Rightarrow>
          (case smoothed_grad h cfg iteration g of
             Inl e \<Rightarrow> Inl e
           | Inr sg \<Rightarrow>
               let smooth_grad = normalize_grad ops sg in
               if shape smooth_grad \<noteq> shape (data input_tensor) then Inl RuntimeError
               else Inr \<lparr>data = clamp_data ops c
                                   (ascent_update ops cfg (data input_tensor) smooth_grad),
                         grad = Some (zeros_like ops g)\<rparr>))"

section \<open>Random spatial jitter\<close>

text \<open>
  \<open>np.random.randint(low, high, 2)\<close>: two integers of the half-open interval from
  \<open>low\<close> to \<open>high\<close>; an empty interval raises. The generator is a stream of raw
  draws, and a draw is reduced into the interval, so that every stream gives a legal
  result and every legal result comes from some stream.
\<close>

definition np_random_randint :: "int \<Rightarrow> int \<Rightarrow> rng \<Rightarrow> error + ((int \<times> int) \<times> rng)" where
  "np_random_randint low high g =
     (if high \<le> low then Inl ValueError
      else Inr ((low + int (g 0 mod nat (high - low)), low + int (g 1 mod nat (high - low))),
                (\<lambda>i. g (i + 2))))"

text \<open>\<open>torch.roll\<close> along one dimension: the element at \<open>i\<close> moves to \<open>i + k\<close>, modulo the length.\<close>

definition roll :: "int \<Rightarrow> 'a list \<Rightarrow> 'a list" where
  "roll k xs = (if xs = [] then [] else rotate (nat ((- k) mod int (length xs))) xs)"

definition torch_roll :: "'e tdata \<Rightarrow> int \<times> int \<Rightarrow> 'e tdata" where
  "torch_roll d shifts = map (\<lambda>ch. map (roll (snd shifts)) (roll (fst shifts) ch)) d"

text \<open>
  Modelled from the spec: \<open>utils.random_circular_spatial_shift\<close> is not among the
  sources. The spec speaks of a random spatial jitter; \<open>deep_dream_static_image\<close>
  calls the helper with the drawn offsets before the gradient step and again, with
  \<open>should_undo=True\<close>, after it. The model is the circular shift of the rows by
  \<open>h_shift\<close> and of the columns by \<open>w_shift\<close>, the undo being the shift by the
  negated offsets; the result is a new tensor with no gradient buffer yet.
\<close>

definition random_circular_spatial_shift :: "'e tensor \<Rightarrow> int \<Rightarrow> int \<Rightarrow> bool \<Rightarrow> 'e tensor" where
  "random_circular_spatial_shift t h_shift w_shift should_undo =
     (let shifts = (if should_undo then (- h_shift, - w_shift) else (h_shift, w_shift))
      in \<lparr>data = torch_roll (data t) shifts, grad = None\<rparr>)"

section \<open>Dreaming one image\<close>

text \<open>\<open>list.index\<close>: the first position of a value, \<open>None\<close> where Python raises.\<close>

fun py_index :: "'a list \<Rightarrow> 'a \<Rightarrow> nat option" where
  "py_index [] x = None"
| "py_index (y # ys) x = (if x = y then Some 0 else map_option Suc (py_index ys x))"

text \<open>The indices of the layer names in a list of names; \<open>None\<close> when a name is not there.\<close>

fun layer_ids :: "string list \<Rightarrow> string list \<Rightarrow> nat list option" where
  "layer_ids names [] = Some []"
| "layer_ids names (layer_name # rest) =
     (case py_index names layer_name of
        None \<Rightarrow> None
      | Some i \<Rightarrow> (case layer_ids names rest of None \<Rightarrow> None | Some is \<Rightarrow> Some (i # is)))"

text \<open>
  The list comprehension of line 74. It reads \<open>model.layer_names\<close> once for each layer
  name, so not at all for an empty list; an object without the attribute raises
  \<open>AttributeError\<close>, a name that is not in the list \<open>ValueError\<close>.
\<close>

definition layer_lookup :: "'e model \<Rightarrow> config \<Rightarrow> error + nat list" where
  "layer_lookup m cfg =
     (if layers_to_use cfg = [] then Inr []
      else case layer_names m of
             None \<Rightarrow> Inl AttributeError
           | Some names \<Rightarrow>
               (case layer_ids names (layers_to_use cfg) of
                  None \<Rightarrow> Inl ValueError
                | Some ids \<Rightarrow> Inr ids))"

text \<open>
  The image that the pyramid starts from: the given one, or the loaded input (replaced
  by noise of its shape under \<open>use_noise\<close>), pre-processed.
\<close>

definition start_image :: "('img, 'e) helpers \<Rightarrow> config \<Rightarrow> 'img option \<Rightarrow> 'img" where
  "start_image h cfg img =
     (let img0 = (case img of
                    None \<Rightarrow>
                      let loaded = load_image h (parse_input_file h (input cfg)) (img_dimensions cfg)
                      in if use_noise cfg then uniform_noise h loaded else loaded
                  | Some i \<Rightarrow> i)
      in pre_process_numpy_img h img0)"

text \<open>
  The inner loop over \<open>range(num_gradient_ascent_iterations)\<close>. The state is the input
  tensor, the random generator and the number of gradient ascent steps made so far.
\<close>

fun ascent_iterations ::
  "'e torch_ops \<Rightarrow> constants \<Rightarrow> ('img, 'e) helpers \<Rightarrow> config \<Rightarrow> 'e model \<Rightarrow> string \<Rightarrow> nat list
     \<Rightarrow> nat list \<Rightarrow> 'e tensor \<times> rng \<times> nat \<Rightarrow> error + 'e tensor \<times> rng \<times> nat" where
  "ascent_iterations ops c h cfg m input_text ids [] st = Inr st"
| "ascent_iterations ops c h cfg m input_text ids (iteration # rest) (input_tensor, g, n) =
     (case np_random_randint (- spatial_shift_size cfg) (spatial_shift_size cfg + 1) g of
        Inl e \<Rightarrow> Inl e
      | Inr ((h_shift, w_shift), g') \<Rightarrow>
          (case gradient_ascent ops c h cfg m
                  (random_circular_spatial_shift input_tensor h_shift w_shift False)
                  input_text ids (int iteration) of
             Inl e \<Rightarrow> Inl e
           | Inr t \<Rightarrow>
               ascent_iterations ops c h cfg m input_text ids rest
                 (random_circular_spatial_shift t h_shift w_shift True, g', Suc n)))"

text \<open>
  The outer loop over \<open>range(pyramid_size)\<close>. The state is the image, the random
  generator, the number of pyramid levels and of gradient ascent steps made so far.
\<close>

fun pyramid_levels ::
  "'e torch_ops \<Rightarrow> constants \<Rightarrow> ('img, 'e) helpers \<Rightarrow> config \<Rightarrow> 'e model \<Rightarrow> string \<Rightarrow> nat list
     \<Rightarrow> nat list \<Rightarrow> nat list \<Rightarrow> 'img \<times> rng \<times> nat \<times> nat \<Rightarrow> error + 'img \<times> rng \<times> nat \<times> nat" where
  "pyramid_levels ops c h cfg m input_text ids base_shape [] st = Inr st"
| "pyramid_levels ops c h cfg m input_text ids base_shape (pyramid_level # rest) (img, g, lv, n) =
     (let new_shape = get_new_shape h cfg base_shape pyramid_level;
          fixed = (class_name m \<in> set (FixedImageResolutionClasses c));
          img1 = cv_resize h img (snd new_shape, fst new_shape);
          img2 = (if fixed then pad_image_to_shape h img1 base_shape else img1);
          input_tensor = \<lparr>data = pytorch_input_adapter h img2, grad = None\<rparr>
      in case ascent_iterations ops c h cfg m input_text ids
                [0..<nat (num_gradient_ascent_iterations cfg)] (input_tensor, g, n) of
           Inl e \<Rightarrow> Inl e
         | Inr (t, g', n') \<Rightarrow>
             let img3 = pytorch_output_adapter h (data t);
                 img4 = (if fixed then extract_original_from_padded h img3 new_shape else img3)
             in pyramid_levels ops c h cfg m input_text ids base_shape rest (img4, g', Suc lv, n'))"

text \<open>
  \<open>deep_dream_static_image\<close>. The \<open>except\<close> clause catches whatever the lookup
  raises; its second \<open>print\<close> reads \<open>model.layer_names\<close> again, which raises anew for
  an object without the attribute, and otherwise the function returns \<open>None\<close>.
\<close>

definition deep_dream_static_image ::
  "'e torch_ops \<Rightarrow> constants \<Rightarrow> ('img, 'e) helpers \<Rightarrow> 'e model \<Rightarrow> config \<Rightarrow> 'img option \<Rightarrow> rng
     \<Rightarrow> error + 'img dream" where
  "deep_dream_static_image ops c h m cfg img g =
     (case layer_lookup m cfg of
        Inl e \<Rightarrow>
          (case layer_names m of
             None \<Rightarrow> Inl AttributeError
           | Some names \<Rightarrow> Inr \<lparr>result = None, rng_after = g, levels_run = 0, steps_run = 0\<rparr>)
      | Inr layer_ids_to_use \<Rightarrow>
          let img1 = start_image h cfg img;
              base_shape = butlast (img_shape h img1)
          in case pyramid_levels ops c h cfg m (text_prompt cfg) layer_ids_to_use base_shape
                    [0..<nat (pyramid_size cfg)] (img1, g, 0, 0) of
               Inl e \<Rightarrow> Inl e
             | Inr (img2, g', lv, n) \<Rightarrow>
                 Inr \<lparr>result = Some (post_process_numpy_img h img2), rng_after = g',
                      levels_run = lv, steps_run = n\<rparr>)"

subsection \<open>The pyramid in the words of the spec\<close>

text \<open>
  A second description of the two loops, to compare the code with: a sequence of array
  transforms and one gradient step repeated in nested loops. \<open>repeat_over\<close> runs a step
  once for each element of a range, in order, and stops at the first exception. One
  iteration draws an offset, shifts the tensor, makes one gradient step and undoes the
  shift. One level resizes the image (and pads it for a model of fixed resolution), runs
  the iterations \<open>0, ..., num_gradient_ascent_iterations - 1\<close> on its tensor and takes
  the image back. The pyramid runs the levels \<open>0, ..., pyramid_size - 1\<close> from the
  start image.
\<close>

fun repeat_over :: "('a \<Rightarrow> 's \<Rightarrow> error + 's) \<Rightarrow> 'a list \<Rightarrow> 's \<Rightarrow> error + 's" where
  "repeat_over step [] s = Inr s"
| "repeat_over step (x # xs) s =
     (case step x s of Inl e \<Rightarrow> Inl e | Inr s' \<Rightarrow> repeat_over step xs s')"

definition one_iteration ::
  "'e torch_ops \<Rightarrow> constants \<Rightarrow> ('img, 'e) helpers \<Rightarrow> config \<Rightarrow> 'e model \<Rightarrow> string \<Rightarrow> nat list
     \<Rightarrow> nat \<Rightarrow> 'e tensor \<times> rng \<Rightarrow> error + 'e tensor \<times> rng" where
  "one_iteration ops c h cfg m input_text ids iteration s =
     (case np_random_randint (- spatial_shift_size cfg) (spatial_shift_size cfg + 1) (snd s) of
        Inl e \<Rightarrow> Inl e
      | Inr (offset, g') \<Rightarrow>
          (case gradient_ascent ops c h cfg m
                  (random_circular_spatial_shift (fst s) (fst offset) (snd offset) False)
                  input_text ids (int iteration) of
             Inl e \<Rightarrow> Inl e
           | Inr t \<Rightarrow> Inr (random_circular_spatial_shift t (fst offset) (snd offset) True, g')))"

definition one_level ::
  "'e torch_ops \<Rightarrow> constants \<Rightarrow> ('img, 'e) helpers \<Rightarrow> config \<Rightarrow> 'e model \<Rightarrow> string \<Rightarrow> nat list
     \<Rightarrow> nat list \<Rightarrow> nat \<Rightarrow> 'img \<times> rng \<Rightarrow> error + 'img \<times> rng" where
  "one_level ops c h cfg m input_text ids base_shape pyramid_level s =
     (let new_shape = get_new_shape h cfg base_shape pyramid_level;
          fixed = (class_name m \<in> set (FixedImageResolutionClasses c));
          resized = cv_resize h (fst s) (snd new_shape, fst new_shape);
          padded = (if fixed then pad_image_to_shape h resized base_shape else resized)
      in case repeat_over (one_iteration ops c h cfg m input_text ids)
                [0..<nat (num_gradient_ascent_iterations cfg)]
                (\<lparr>data = pytorch_input_adapter h padded, grad = None\<rparr>, snd s) of
           Inl e \<Rightarrow> Inl e
         | Inr (t, g') \<Rightarrow>
             Inr (if fixed
                  then extract_original_from_padded h (pytorch_output_adapter h (data t)) new_shape
                  else pytorch_output_adapter h (data t),
                  g'))"

definition pyramid_spec ::
  "'e torch_ops \<Rightarrow> constants \<Rightarrow> ('img, 'e) helpers \<Rightarrow> 'e model \<Rightarrow> config \<Rightarrow> nat list
     \<Rightarrow> 'img option \<Rightarrow> rng \<Rightarrow> error + 'img \<times> rng" where
  "pyramid_spec ops c h m cfg ids img g =
     repeat_over
       (one_level ops c h cfg m (text_prompt cfg) ids (butlast (img_shape h (start_image h cfg img))))
       [0..<nat (pyramid_size cfg)]
       (start_image h cfg img, g)"

section \<open>Calling \<open>deep_dream_static_image\<close>\<close>

text \<open>
  Python binds the arguments of a call to the parameters of the function before the body
  runs: positional arguments in order, then keyword arguments by name. Too many
  positional arguments, an unknown or doubly bound keyword, or a parameter left without
  a value (none of the parameters here has a default) raise \<open>TypeError\<close>.
\<close>

definition py_bind :: "string list \<Rightarrow> 'v list \<Rightarrow> (string \<times> 'v) list \<Rightarrow> error + (string \<times> 'v) list" where
  "py_bind params args kwargs =
     (if length params < length args then Inl TypeError
      else
        let positional = zip params args in
        if list_ex (\<lambda>kw. fst kw \<notin> set params \<or> fst kw \<in> set (map fst positional)) kwargs
        then Inl TypeError
        else if list_ex (\<lambda>p. p \<notin> set (map fst (positional @ kwargs))) params then Inl TypeError
        else Inr (positional @ kwargs))"

text \<open>
  A call \<open>deep_dream_static_image(...)\<close> with the given positional and keyword
  arguments. The function is declared as \<open>deep_dream_static_image(model, config, img)\<close>.
  When the binding succeeds the body runs: on a model, a configuration and an image it is
  the function above; on values of other kinds it is left to the parameter
  \<open>body_on_other_kinds\<close>.
\<close>

definition call_deep_dream_static_image ::
  "'e torch_ops \<Rightarrow> constants \<Rightarrow> ('img, 'e) helpers \<Rightarrow> rng \<Rightarrow> ('img, 'e) pyarg list
     \<Rightarrow> (string \<times> ('img, 'e) pyarg) list \<Rightarrow> error + 'img dream" where
  "call_deep_dream_static_image ops c h g args kwargs =
     (case py_bind [''model'', ''config'', ''img''] args kwargs of
        Inl e \<Rightarrow> Inl e
      | Inr b \<Rightarrow>
          (case (map_of b ''model'', map_of b ''config'', map_of b ''img'') of
             (Some (ArgModel m), Some (ArgConfig cfg), Some (ArgImage img)) \<Rightarrow>
               deep_dream_static_image ops c h m cfg img g
           | _ \<Rightarrow> body_on_other_kinds h b))"

section \<open>The modes\<close>

text \<open>What a mode does to the outside, in order.\<close>

datatype 'img event =
    Subprocess "string list"
  | Loaded nat 'img
  | Blended nat 'img
  | DreamCall nat "'img option"
  | Dreamed nat "'img option"
  | Saved nat "'img option"
  | Transformed nat "'img option"
  | VideoCreated "nat list"
  | Removed string

text \<open>Strings: \<open>str.lower\<close> on ASCII letters, \<open>str.endswith\<close>, \<open>os.path.join\<close> on POSIX.\<close>

definition py_lower :: "string \<Rightarrow> string" where
  "py_lower s = map (\<lambda>ch. let n = (of_char ch :: nat)
                          in if 65 \<le> n \<and> n \<le> 90 then char_of (n + 32) else ch) s"

definition py_endswith :: "string \<Rightarrow> string \<Rightarrow> bool" where
  "py_endswith s ext =
     (length ext \<le> length s \<and> drop (length s - length ext) s = ext)"

definition os_path_join :: "string \<Rightarrow> string \<Rightarrow> string" where
  "os_path_join a b =
     (if b \<noteq> [] \<and> hd b = CHR ''/'' then b
      else if a = [] \<or> last a = CHR ''/'' then a @ b
      else a @ ''/'' @ b)"

subsection \<open>Ouroboros\<close>

text \<open>
  The loop of \<open>deep_dream_video_ouroboros\<close> over \<open>range(ouroboros_length)\<close>. The
  state is the frame, the random generator and the trace; the trace is returned also
  when the loop ends in an exception.
\<close>

fun ouroboros_loop ::
  "'e torch_ops \<Rightarrow> constants \<Rightarrow> ('img, 'e) helpers \<Rightarrow> config \<Rightarrow> nat list
     \<Rightarrow> 'img option \<times> rng \<times> 'img event list
     \<Rightarrow> 'img event list \<times> (error + 'img option \<times> rng)" where
  "ouroboros_loop ops c h cfg [] (frame, g, tr) = (tr, Inr (frame, g))"
| "ouroboros_loop ops c h cfg (frame_id # rest) (frame, g, tr) =
     (case call_deep_dream_static_image ops c h g [ArgConfig cfg, ArgImage frame] [] of
        Inl e \<Rightarrow> (tr @ [DreamCall frame_id frame], Inl e)
      | Inr r \<Rightarrow>
          let frame1 = result r;
              frame2 = transform_frame h cfg frame1
          in ouroboros_loop ops c h cfg rest
               (frame2, rng_after r,
                tr @ [DreamCall frame_id frame, Dreamed frame_id frame1, Saved frame_id frame1,
                      Transformed frame_id frame2]))"

definition deep_dream_video_ouroboros ::
  "'e torch_ops \<Rightarrow> constants \<Rightarrow> ('img, 'e) helpers \<Rightarrow> config \<Rightarrow> rng
     \<Rightarrow> 'img event list \<times> (error + unit)" where
  "deep_dream_video_ouroboros ops c h cfg g =
     (if \<not> list_ex (py_endswith (py_lower (input_name cfg))) (SUPPORTED_IMAGE_FORMATS c)
      then ([], Inl AssertionError)
      else
        let img_path = parse_input_file h (input cfg);
            frame = (if use_noise cfg then None else Some (load_image h img_path (img_dimensions cfg)))
        in case ouroboros_loop ops c h cfg [0..<nat (ouroboros_length cfg)] (frame, g, []) of
             (tr, Inl e) \<Rightarrow> (tr, Inl e)
           | (tr, Inr (None, g')) \<Rightarrow> (tr, Inl AttributeError)
           | (tr, Inr (Some f, g')) \<Rightarrow> (tr @ [VideoCreated (img_shape h f)], Inr ()))"

subsection \<open>Frame extraction\<close>

text \<open>
  What \<open>extract_frames\<close> asks of the system: \<open>shutil.which\<close>, the frame rate that
  OpenCV reports for a video, and the sorted listing of a directory.
\<close>

record system =
  which :: "string \<Rightarrow> string option"
  video_fps :: "string \<Rightarrow> real"
  sorted_listdir :: "string \<Rightarrow> string list"

datatype pyval = VStr string | VInt int

text \<open>The truth value of an optional string: \<open>None\<close> and the empty string are false.\<close>

definition py_truthy :: "string option \<Rightarrow> bool" where
  "py_truthy v = (case v of None \<Rightarrow> False | Some s \<Rightarrow> s \<noteq> [])"

text \<open>\<open>int(x)\<close> of a float truncates towards zero; \<open>str(n)\<close> is the decimal numeral.\<close>

definition py_int :: "real \<Rightarrow> int" where
  "py_int x = (if 0 \<le> x then \<lfloor>x\<rfloor> else \<lceil>x\<rceil>)"

function str_nat :: "nat \<Rightarrow> string" where
  "str_nat n = (if n < 10 then [char_of (48 + n)] else str_nat (n div 10) @ [char_of (48 + n mod 10)])"
  by pat_completeness auto
termination
  by (relation "measure id") auto

definition str_int :: "int \<Rightarrow> string" where
  "str_int i = (if i < 0 then CHR ''-'' # str_nat (nat (- i)) else str_nat (nat i))"

definition extract_frames ::
  "system \<Rightarrow> string \<Rightarrow> string \<Rightarrow> string list list \<times> (error + (string \<rightharpoonup> pyval))" where
  "extract_frames sys video_path dump_dir =
     (let ffmpeg = ''ffmpeg'' in
      if py_truthy (which sys ffmpeg) then
        let fps_value = py_int (video_fps sys video_path);
            input_options = [''-i'', video_path];
            extract_options = [''-r'', str_int fps_value];
            out_frame_pattern = os_path_join dump_dir ''frame_%6d.jpg'';
            less_verbose = [''-loglevel'', ''warning'']
        in ([[ffmpeg] @ input_options @ extract_options @ less_verbose @ [out_frame_pattern]],
            Inr [''pattern'' \<mapsto> VStr out_frame_pattern, ''fps'' \<mapsto> VInt fps_value])
      else ([], Inl (Exception (ffmpeg @ '' not found in the system path, aborting.''))))"

subsection \<open>Frame by frame video\<close>

text \<open>
  The loop of \<open>deep_dream_video\<close> over the enumerated frame names. The state is
  \<open>last_img\<close>, the variable \<open>frame\<close> (unbound before the first pass), the random
  generator and the trace.
\<close>

fun video_loop ::
  "'e torch_ops \<Rightarrow> constants \<Rightarrow> ('img, 'e) helpers \<Rightarrow> config \<Rightarrow> string \<Rightarrow> (nat \<times> string) list
     \<Rightarrow> 'img option \<times> 'img option \<times> rng \<times> 'img event list
     \<Rightarrow> 'img event list \<times> (error + 'img option \<times> 'img option \<times> rng)" where
  "video_loop ops c h cfg tmp_input_dir [] (last_img, frame, g, tr) = (tr, Inr (last_img, frame, g))"
| "video_loop ops c h cfg tmp_input_dir ((frame_id, frame_name) # rest) (last_img, frame, g, tr) =
     (let frame_path = os_path_join tmp_input_dir frame_name;
          loaded = load_image h frame_path (img_dimensions cfg);
          tr1 = tr @ [Loaded frame_id loaded];
          (frame1, tr2) =
            (case (blend cfg, last_img) of
               (Some b, Some l) \<Rightarrow>
                 (let blended = linear_blend h l loaded b in (blended, tr1 @ [Blended frame_id blended]))
             | _ \<Rightarrow> (loaded, tr1));
          tr3 = tr2 @ [DreamCall frame_id (Some frame1)]
      in case call_deep_dream_static_image ops c h g [ArgConfig cfg, ArgImage (Some frame1)] [] of
           Inl e \<Rightarrow> (tr3, Inl e)
         | Inr r \<Rightarrow>
             video_loop ops c h cfg tmp_input_dir rest
               (result r, Some frame1, rng_after r,
                tr3 @ [Dreamed frame_id (result r), Saved frame_id (result r)]))"

definition deep_dream_video ::
  "'e torch_ops \<Rightarrow> constants \<Rightarrow> ('img, 'e) helpers \<Rightarrow> system \<Rightarrow> config \<Rightarrow> rng
     \<Rightarrow> 'img event list \<times> (error + unit)" where
  "deep_dream_video ops c h sys cfg g =
     (let video_path = parse_input_file h (input cfg);
          tmp_input_dir = os_path_join (OUT_VIDEOS_PATH c) ''tmp_input''
      in case extract_frames sys video_path tmp_input_dir of
           (calls, Inl e) \<Rightarrow> (map Subprocess calls, Inl e)
         | (calls, Inr metadata) \<Rightarrow>
             (case video_loop ops c h cfg tmp_input_dir
                     (enumerate 0 (sorted_listdir sys tmp_input_dir))
                     (None, None, g, map Subprocess calls) of
                (tr, Inl e) \<Rightarrow> (tr, Inl e)
              | (tr, Inr (last_img, None, g')) \<Rightarrow> (tr, Inl NameError)
              | (tr, Inr (last_img, Some f, g')) \<Rightarrow>
                  (tr @ [VideoCreated (img_shape h f), Removed tmp_input_dir], Inr ())))"

subsection \<open>Static image\<close>

text \<open>The last branch of the main program: \<open>deep_dream_static_image(config, img=None)\<close>.\<close>

definition dream_static_mode ::
  "'e torch_ops \<Rightarrow> constants \<Rightarrow> ('img, 'e) helpers \<Rightarrow> config \<Rightarrow> rng
     \<Rightarrow> 'img event list \<times> (error + unit)" where
  "dream_static_mode ops c h cfg g =
     (case call_deep_dream_static_image ops c h g [ArgConfig cfg] [(''img'', ArgImage None)] of
        Inl e \<Rightarrow> ([DreamCall 0 None], Inl e)
      | Inr r \<Rightarrow> ([DreamCall 0 None, Dreamed 0 (result r), Saved 0 (result r)], Inr ()))"

section \<open>Clipped zoom\<close>

text \<open>
  An image array is a list of rows of pixels; the trailing channel dimension stays
  inside the pixel, as the zoom factor 1 of \<open>zoom_tuple\<close> leaves it alone.
\<close>

definition height :: "'a list list \<Rightarrow> nat" where
  "height img = length img"

definition width :: "'a list list \<Rightarrow> nat" where
  "width img = (case img of [] \<Rightarrow> 0 | r # _ \<Rightarrow> length r)"

text \<open>\<open>np.round\<close> and Python's \<open>round\<close>: to the nearest integer, a half to the even one.\<close>

definition np_round :: "real \<Rightarrow> int" where
  "np_round x =
     (let f = \<lfloor>x\<rfloor>; d = x - of_int f
      in if d < 1 / 2 then f else if 1 / 2 < d then f + 1 else if even f then f else f + 1)"

text \<open>
  A slice \<open>xs[start:stop]\<close>: a negative bound counts from the end, and both bounds are
  clipped to the list.
\<close>

definition slice_bounds :: "nat \<Rightarrow> int \<Rightarrow> int \<Rightarrow> nat \<times> nat" where
  "slice_bounds n start stop =
     (let clip = (\<lambda>i. if i < 0 then max (i + int n) 0 else min i (int n))
      in (nat (clip start), nat (clip stop)))"

definition py_slice :: "'a list \<Rightarrow> int \<Rightarrow> int \<Rightarrow> 'a list" where
  "py_slice xs start stop =
     (let (s, e) = slice_bounds (length xs) start stop in take (e - s) (drop s xs))"

text \<open>
  \<open>scipy.ndimage.zoom\<close> with one factor for rows and columns: the output has
  \<open>round(n * zoom)\<close> rows and columns; its values come from a spline interpolation,
  here the parameter \<open>interp\<close>. A negative size raises.
\<close>

definition ndimage_zoom ::
  "(real \<Rightarrow> 'a list list \<Rightarrow> nat \<Rightarrow> nat \<Rightarrow> 'a) \<Rightarrow> 'a list list \<Rightarrow> real \<Rightarrow> error + 'a list list" where
  "ndimage_zoom interp img z =
     (let oh = np_round (real (height img) * z);
          ow = np_round (real (width img) * z)
      in if oh < 0 \<or> ow < 0 then Inl ValueError
         else Inr (map (\<lambda>i. map (\<lambda>j. interp z img i j) [0..<nat ow]) [0..<nat oh]))"

text \<open>
  The shape of the array that \<open>zoom\<close> returns. A list of rows cannot tell the width
  of an array without rows, so the shape goes along with it where it matters.
\<close>

definition zoom_shape :: "'a list list \<Rightarrow> real \<Rightarrow> int \<times> int" where
  "zoom_shape img z = (np_round (real (height img) * z), np_round (real (width img) * z))"

text \<open>
  The assignment \<open>out[r_start:r_stop, c_start:c_stop] = src\<close>, for a \<open>src\<close> of shape
  \<open>src_shape\<close>: numpy raises when \<open>src\<close> cannot be broadcast to the region. In
  \<open>clipped_zoom\<close> the region has the shape of \<open>src\<close> whenever \<open>zoom\<close> has
  returned, also when that shape has a zero, and then nothing is assigned.
\<close>

definition assign_region ::
  "'a list list \<Rightarrow> int \<Rightarrow> int \<Rightarrow> int \<Rightarrow> int \<Rightarrow> int \<times> int \<Rightarrow> 'a list list \<Rightarrow> error + 'a list list" where
  "assign_region out r_start r_stop c_start c_stop src_shape src =
     (let (r0, r1) = slice_bounds (height out) r_start r_stop;
          (c0, c1) = slice_bounds (width out) c_start c_stop
      in if (int (r1 - r0), int (c1 - c0)) \<noteq> src_shape then Inl ValueError
         else Inr (map (\<lambda>(i, row).
                          if r0 \<le> i \<and> i < r1 then take c0 row @ (src ! (i - r0)) @ drop c1 row
                          else row)
                       (enumerate 0 out)))"

definition clipped_zoom ::
  "(real \<Rightarrow> 'a list list \<Rightarrow> nat \<Rightarrow> nat \<Rightarrow> 'a) \<Rightarrow> 'a \<Rightarrow> 'a list list \<Rightarrow> real \<Rightarrow> error + 'a list list" where
  "clipped_zoom interp zero img zoom_factor =
     (let h = height img; w = width img in
      if zoom_factor < 1 then
        let zh = np_round (real h * zoom_factor);
            zw = np_round (real w * zoom_factor);
            top_px = (int h - zh) div 2;
            left_px = (int w - zw) div 2;
            out = map (map (\<lambda>_. zero)) img
        in (case ndimage_zoom interp img zoom_factor of
              Inl e \<Rightarrow> Inl e
            | Inr zoomed \<Rightarrow>
                assign_region out top_px (top_px + zh) left_px (left_px + zw)
                  (zoom_shape img zoom_factor) zoomed)
      else if 1 < zoom_factor then
        let zh = np_round (real h / zoom_factor);
            zw = np_round (real w / zoom_factor);
            top_px = (int h - zh) div 2;
            left_px = (int w - zw) div 2
        in (case ndimage_zoom interp
                   (map (\<lambda>row. py_slice row left_px (left_px + zw)) (py_slice img top_px (top_px + zh)))
                   zoom_factor of
              Inl e \<Rightarrow> Inl e
            | Inr out \<Rightarrow>
                let trim_top = (int (height out) - int h) div 2;
                    trim_left = (int (width out) - int w) div 2
                in Inr (map (\<lambda>row. py_slice row trim_left (trim_left + int w))
                            (py_slice out trim_top (trim_top + int h))))
      else Inr img)"

section \<open>Notions used in the statements\<close>

text \<open>Mean and variance (with Bessel's correction) of a list of reals.\<close>

definition mean_r :: "real list \<Rightarrow> real" where
  "mean_r rs = sum_list rs / real (length rs)"

definition var_r :: "real list \<Rightarrow> real" where
  "var_r rs = (\<Sum>r\<leftarrow>rs. (r - mean_r rs) * (r - mean_r rs)) / (real (length rs) - 1)"

text \<open>
  A floating point element is finite when it is a number and not an infinity or
  \<open>nan\<close>. It is within the image bounds of its channel when it is a finite number
  between them; a tensor is when all its elements are.
\<close>

fun is_finite :: "fl \<Rightarrow> bool" where
  "is_finite (Val (Fin a)) = True"
| "is_finite _ = False"

fun elem_ok :: "constants \<Rightarrow> nat \<Rightarrow> fl \<Rightarrow> bool" where
  "elem_ok c ch (Val (Fin v)) = (LOWER_IMAGE_BOUND c ch \<le> v \<and> v \<le> UPPER_IMAGE_BOUND c ch)"
| "elem_ok c ch _ = False"

definition within_bounds :: "constants \<Rightarrow> fl tdata \<Rightarrow> bool" where
  "within_bounds c d =
     list_all (\<lambda>(ch, rows). list_all (list_all (elem_ok c ch)) rows) (zip [0..<length d] d)"

definition all_zeros :: "fl tdata \<Rightarrow> bool" where
  "all_zeros d = list_all (\<lambda>x. x = Val (Fin 0)) (flatten d)"

text \<open>
  The image bounds are elements of tensors and the learning rate is a Python number that
  is multiplied into a tensor: the bounds are representable as they are, the learning
  rate becomes some finite non-zero element.
\<close>

definition bounds_representable :: "fl torch_ops \<Rightarrow> constants \<Rightarrow> bool" where
  "bounds_representable ops c =
     (\<forall>ch. t_scalar ops (LOWER_IMAGE_BOUND c ch) = Val (Fin (LOWER_IMAGE_BOUND c ch))
         \<and> t_scalar ops (UPPER_IMAGE_BOUND c ch) = Val (Fin (UPPER_IMAGE_BOUND c ch)))"


section \<open>Concrete inputs\<close>

text \<open>
  Small inputs on which the statements below are evaluated. The images are tensor data,
  the helpers leave them as they are (loading gives a fixed image, blending puts one
  image after the other), the smoothing is the identity. The loss of \<open>ex_model\<close> is
  half the squared norm of the input, so its gradient at an input is that input, and at
  the zero image it is zero.
\<close>

definition ex_constants :: constants where
  "ex_constants =
     \<lparr>LOWER_IMAGE_BOUND = (\<lambda>_. - 1), UPPER_IMAGE_BOUND = (\<lambda>_. 1),
      FixedImageResolutionClasses = [], SUPPORTED_IMAGE_FORMATS = [''.jpg'', ''.png''],
      OUT_VIDEOS_PATH = ''data/out-videos''\<rparr>"

definition ex_config :: config where
  "ex_config =
     \<lparr>input = ''figures.jpg'', input_name = ''figures.jpg'', img_dimensions = [],
      layers_to_use = [''relu4_3''], text_prompt = ''Triangles'', model_name = ''VGG16'',
      pyramid_size = 2, pyramid_ratio = 9 / 5, num_gradient_ascent_iterations = 2, lr = 1 / 2,
      ouroboros_length = 2, fps = 5, blend = Some (17 / 20), spatial_shift_size = 1,
      smoothing_coefficient = 1 / 2, use_noise = False\<rparr>"

definition ex_helpers :: "'e tdata \<Rightarrow> ('e tdata, 'e) helpers" where
  "ex_helpers loaded =
     \<lparr>parse_input_file = (\<lambda>p. p), load_image = (\<lambda>_ _. loaded), uniform_noise = (\<lambda>i. i),
      pre_process_numpy_img = (\<lambda>i. i), post_process_numpy_img = (\<lambda>i. i),
      img_shape = (\<lambda>i. [1, 3, 1]), get_new_shape = (\<lambda>_ _ _. (1, 3)),
      cv_resize = (\<lambda>i _. i), pad_image_to_shape = (\<lambda>i _. i),
      extract_original_from_padded = (\<lambda>i _. i),
      pytorch_input_adapter = (\<lambda>i. i), pytorch_output_adapter = (\<lambda>d. d),
      CascadeGaussianSmoothing = (\<lambda>_ _ g. g),
      transform_frame = (\<lambda>_ i. i), linear_blend = (\<lambda>a b _. a @ b),
      body_on_other_kinds = (\<lambda>_. Inl TypeError)\<rparr>"

definition ex_model :: "'e model" where
  "ex_model =
     \<lparr>class_name = ''Vgg16'', layer_names = Some [''relu3_3'', ''relu4_3''],
      loss_gradient = (\<lambda>_ _ d. d)\<rparr>"

text \<open>In exact arithmetic.\<close>

definition ex_image :: "elem tdata" where
  "ex_image = [[[Num 0, Num 2, Num 4]]]"

definition ex_tensor :: "elem tensor" where
  "ex_tensor = \<lparr>data = ex_image, grad = None\<rparr>"

definition zero_tensor :: "elem tensor" where
  "zero_tensor = \<lparr>data = [[[Num 0, Num 0]]], grad = None\<rparr>"

text \<open>In floating point.\<close>

definition fl_image :: "fl tdata" where
  "fl_image = [[[Val (Fin 0), Val (Fin 2), Val (Fin 4)]]]"

definition fl_tensor :: "fl tensor" where
  "fl_tensor = \<lparr>data = fl_image, grad = None\<rparr>"

definition fl_zero_tensor :: "fl tensor" where
  "fl_zero_tensor = \<lparr>data = [[[Val (Fin 0), Val (Fin 0)]]], grad = None\<rparr>"

definition ex_rng :: rng where
  "ex_rng = (\<lambda>i. 2 * i)"

text \<open>
  A layer name the model does not have; negative loop counts; a negative shift size; an
  object without the attribute \<open>layer_names\<close> in the place of the model.
\<close>

definition bad_layer_config :: config where
  "bad_layer_config = ex_config\<lparr>layers_to_use := [''mixed4c'']\<rparr>"



definition no_names_model :: "'e model" where
  "no_names_model =
     \<lparr>class_name = ''Vgg16'', layer_names = None, loss_gradient = (\<lambda>_ _ d. d)\<rparr>"

text \<open>A system with the transcoder installed and two extracted frames.\<close>

definition ex_system :: system where
  "ex_system =
     \<lparr>which = (\<lambda>name. if name = ''ffmpeg'' then Some ''/usr/bin/ffmpeg'' else None),
      video_fps = (\<lambda>_. 2997 / 100),
      sorted_listdir = (\<lambda>_. [''frame_000001.jpg'', ''frame_000002.jpg''])\<rparr>"

section \<open>Properties of the gradient ascent step\<close>

subsection \<open>Sums, means and standard deviations\<close>

lemma esum_Num: "esum (map Num rs) = Num (sum_list rs)"
  by (induction rs) (auto simp: esum_def)

lemma eadd_NaN_left: "eadd NaN y = NaN" by simp

lemma eadd_NaN_right: "eadd x NaN = NaN" by (cases x) simp_all

lemma esum_NaN: "NaN \<in> set xs \<Longrightarrow> esum xs = NaN"
proof (induction xs)
  case Nil then show ?case by simp
next
  case (Cons a xs)
  show ?case
  proof (cases "a = NaN")
    case True then show ?thesis by (simp add: esum_def)
  next
    case False
    with Cons have "esum xs = NaN" by auto
    then show ?thesis by (simp add: esum_def eadd_NaN_right)
  qed
qed

lemma no_NaN_map_Num: "NaN \<notin> set xs \<Longrightarrow> \<exists>rs. xs = map Num rs"
proof (induction xs)
  case Nil then show ?case by simp
next
  case (Cons a xs)
  then obtain rs where "xs = map Num rs" by auto
  moreover from Cons.prems obtain r where "a = Num r" by (cases a) auto
  ultimately have "a # xs = map Num (r # rs)" by simp
  then show ?case by (rule exI[of _ "r # rs"])
qed

lemma torch_mean_Num: "rs \<noteq> [] \<Longrightarrow> torch_mean (map Num rs) = Num (mean_r rs)"
  by (simp add: torch_mean_def esum_Num mean_r_def)

lemma torch_std_Num: "2 \<le> length rs \<Longrightarrow> torch_std (map Num rs) = Num (sqrt (var_r rs))"
proof -
  assume n: "2 \<le> length rs"
  then have ne: "rs \<noteq> []" by auto
  have "map (\<lambda>x. emul (esub x (Num (mean_r rs))) (esub x (Num (mean_r rs)))) (map Num rs)
        = map Num (map (\<lambda>r. (r - mean_r rs) * (r - mean_r rs)) rs)"
    by simp
  then show ?thesis using n
    by (simp add: torch_std_def torch_mean_Num[OF ne] esum_Num var_r_def del: map_map)
qed

lemma centred_sum: "rs \<noteq> [] \<Longrightarrow> (\<Sum>r\<leftarrow>rs. r - mean_r rs) = 0"
  by (simp add: sum_list_subtractf sum_list_triv mean_r_def)

lemma var_nonneg: "2 \<le> length rs \<Longrightarrow> 0 \<le> var_r rs"
  unfolding var_r_def by (intro divide_nonneg_nonneg sum_list_nonneg) auto

lemma normalized_mean:
  assumes "rs \<noteq> []"
  shows "mean_r (map (\<lambda>r. (r - mean_r rs) / s) rs) = 0"
proof -
  have "(\<Sum>r\<leftarrow>rs. (r - mean_r rs) / s) = (\<Sum>r\<leftarrow>rs. (r - mean_r rs) * (1 / s))" by simp
  also have "\<dots> = (\<Sum>r\<leftarrow>rs. r - mean_r rs) * (1 / s)" by (rule sum_list_mult_const)
  finally show ?thesis using centred_sum[OF assms] by (simp add: mean_r_def comp_def)
qed

lemma normalized_var:
  assumes n: "2 \<le> length rs" and s: "s = sqrt (var_r rs)" and nz: "s \<noteq> 0"
  shows "var_r (map (\<lambda>r. (r - mean_r rs) / s) rs) = 1"
proof -
  let ?ys = "map (\<lambda>r. (r - mean_r rs) / s) rs"
  have ne: "rs \<noteq> []" using n by auto
  have m0: "mean_r ?ys = 0" by (rule normalized_mean[OF ne])
  have s2: "s * s = var_r rs" using s var_nonneg[OF n] by simp
  have "(\<Sum>y\<leftarrow>?ys. (y - mean_r ?ys) * (y - mean_r ?ys))
        = (\<Sum>r\<leftarrow>rs. ((r - mean_r rs) * (r - mean_r rs)) * (1 / (s * s)))"
    by (simp add: m0 comp_def)
  also have "\<dots> = (\<Sum>r\<leftarrow>rs. (r - mean_r rs) * (r - mean_r rs)) * (1 / (s * s))"
    by (rule sum_list_mult_const)
  finally have "var_r ?ys = var_r rs / (s * s)"
    by (simp add: var_r_def)
  moreover have "var_r rs \<noteq> 0" using s2 nz by (metis mult_eq_0_iff)
  ultimately show ?thesis using s2 by simp
qed

lemma torch_std_Num_elems:
  assumes "torch_std xs = Num s"
  shows "2 \<le> length xs \<and> NaN \<notin> set xs"
proof -
  have n: "2 \<le> length xs" using assms by (auto simp: torch_std_def split: if_splits)
  have "NaN \<notin> set xs"
  proof
    assume a: "NaN \<in> set xs"
    have "torch_mean xs = NaN" by (simp add: torch_mean_def esum_NaN[OF a])
    then have "esum (map (\<lambda>x. emul (esub x (torch_mean xs)) (esub x (torch_mean xs))) xs) = NaN"
      using n by (intro esum_NaN) (cases xs, auto simp: eadd_NaN_right)
    then show False using assms n by (simp add: torch_std_def)
  qed
  with n show ?thesis by simp
qed

lemma std_zero_centred:
  assumes "torch_std xs = Num 0" and "x \<in> set xs"
  shows "esub x (torch_mean xs) = Num 0"
proof -
  from torch_std_Num_elems[OF assms(1)] have n: "2 \<le> length xs" and nn: "NaN \<notin> set xs" by auto
  from no_NaN_map_Num[OF nn] obtain rs where rs: "xs = map Num rs" by blast
  have n': "2 \<le> length rs" and ne: "rs \<noteq> []" using n rs by auto
  have "sqrt (var_r rs) = 0" using assms(1) torch_std_Num[OF n'] rs by simp
  then have "(\<Sum>r\<leftarrow>rs. (r - mean_r rs) * (r - mean_r rs)) = 0"
    using n' by (simp add: var_r_def)
  then have all0: "\<forall>v\<in>set (map (\<lambda>r. (r - mean_r rs) * (r - mean_r rs)) rs). v = 0"
    by (subst (asm) sum_list_nonneg_eq_0_iff) auto
  from assms(2) rs obtain r where r: "r \<in> set rs" "x = Num r" by auto
  with all0 have "r - mean_r rs = 0" by auto
  then show ?thesis using r by (simp add: rs torch_mean_Num[OF ne])
qed

lemma flatten_tmap: "flatten (tmap f t) = map f (flatten t)"
  by (simp add: flatten_def tmap_def map_concat)

lemma shape_tmap: "shape (tmap f t) = shape t"
  by (simp add: shape_def tmap_def comp_def)

lemma shape_normalize: "shape (normalize_grad ops sg) = shape sg"
  by (simp add: normalize_grad_def Let_def shape_tmap)

lemma flatten_normalize:
  assumes "torch_std (flatten sg) = Num s" and "s \<noteq> 0" and "flatten sg = map Num rs"
  shows "flatten (normalize_grad exact_ops sg) = map Num (map (\<lambda>r. (r - mean_r rs) / s) rs)"
proof -
  from torch_std_Num_elems[OF assms(1)] assms(3) have ne: "rs \<noteq> []" by auto
  have st: "torch_std (map Num rs) = Num s" using assms(1) assms(3) by simp
  show ?thesis
    using assms(2)
    by (simp add: normalize_grad_def exact_ops_def Let_def flatten_tmap st assms(3)
        torch_mean_Num[OF ne] comp_def)
qed

lemma normalize_unit:
  assumes "torch_std (flatten sg) = Num s" and "s \<noteq> 0"
  shows "torch_mean (flatten (normalize_grad exact_ops sg)) = Num 0"
    and "torch_std (flatten (normalize_grad exact_ops sg)) = Num 1"
proof -
  from torch_std_Num_elems[OF assms(1)] have n: "2 \<le> length (flatten sg)" and nn: "NaN \<notin> set (flatten sg)" by auto
  from no_NaN_map_Num[OF nn] obtain rs where rs: "flatten sg = map Num rs" by blast
  have n': "2 \<le> length rs" and ne: "rs \<noteq> []" using n rs by auto
  have s: "s = sqrt (var_r rs)" using assms(1) torch_std_Num[OF n'] rs by simp
  let ?ys = "map (\<lambda>r. (r - mean_r rs) / s) rs"
  have fl: "flatten (normalize_grad exact_ops sg) = map Num ?ys" by (rule flatten_normalize[OF assms rs])
  have ne': "?ys \<noteq> []" using ne by simp
  have n'': "2 \<le> length ?ys" using n' by simp
  show "torch_mean (flatten (normalize_grad exact_ops sg)) = Num 0"
    unfolding fl torch_mean_Num[OF ne'] using normalized_mean[OF ne, of s] by simp
  show "torch_std (flatten (normalize_grad exact_ops sg)) = Num 1"
    unfolding fl torch_std_Num[OF n''] using normalized_var[OF n' s assms(2)] by simp
qed

lemma set_flatten: "x \<in> set (flatten d) \<longleftrightarrow> (\<exists>ch\<in>set d. \<exists>row\<in>set ch. x \<in> set row)"
  by (auto simp: flatten_def)

lemma set_flatten_tzip:
  assumes "x \<in> set (flatten (tzip f a b))"
  shows "\<exists>u\<in>set (flatten a). \<exists>v\<in>set (flatten b). x = f u v"
proof -
  from assms obtain ch row where ch: "ch \<in> set (tzip f a b)" and row: "row \<in> set ch" and x: "x \<in> set row"
    by (auto simp: set_flatten)
  from ch obtain ca cb where c: "ca \<in> set a" "cb \<in> set b" "ch = map2 (map2 f) ca cb"
    by (auto simp: tzip_def dest: set_zip_leftD set_zip_rightD)
  from row c obtain ra rb where r: "ra \<in> set ca" "rb \<in> set cb" "row = map2 f ra rb"
    by (auto dest: set_zip_leftD set_zip_rightD)
  from x r obtain u v where "u \<in> set ra" "v \<in> set rb" "x = f u v"
    by (auto dest: set_zip_leftD set_zip_rightD)
  then have "u \<in> set (flatten a)" "v \<in> set (flatten b)" "x = f u v"
    using c r by (auto simp: set_flatten)
  then show ?thesis by blast
qed

lemma length_clamp: "length (clamp_data ops c d) = length d"
  by (simp add: clamp_data_def)

lemma nth_clamp:
  "ch < length d \<Longrightarrow> clamp_data ops c d ! ch =
     map (map (\<lambda>x. t_max ops (t_min ops x (t_scalar ops (UPPER_IMAGE_BOUND c ch)))
                          (t_scalar ops (LOWER_IMAGE_BOUND c ch)))) (d ! ch)"
  by (simp add: clamp_data_def)

lemma shape_clamp: "shape (clamp_data ops c d) = shape d"
  by (auto simp: shape_def clamp_data_def intro!: nth_equalityI)

lemma shape_row_map2:
  assumes "map length ra = map length rb"
  shows "map length (map2 (map2 f) ra rb) = map length ra"
proof (rule nth_equalityI)
  have l: "length ra = length rb" using assms by (rule map_eq_imp_length_eq)
  then show "length (map length (map2 (map2 f) ra rb)) = length (map length ra)" by simp
  fix i assume "i < length (map length (map2 (map2 f) ra rb))"
  then have i: "i < length ra" "i < length rb" using l by auto
  from assms have "map length ra ! i = map length rb ! i" by simp
  with i have "length (ra ! i) = length (rb ! i)" by simp
  with i show "map length (map2 (map2 f) ra rb) ! i = map length ra ! i" by simp
qed

lemma shape_tzip:
  assumes "shape a = shape b"
  shows "shape (tzip f a b) = shape a"
  unfolding shape_def tzip_def
proof (rule nth_equalityI)
  have l: "length a = length b" using assms unfolding shape_def by (rule map_eq_imp_length_eq)
  then show "length (map (map length) (map2 (map2 (map2 f)) a b)) = length (map (map length) a)"
    by simp
  fix i assume "i < length (map (map length) (map2 (map2 (map2 f)) a b))"
  then have i: "i < length a" "i < length b" using l by auto
  from assms have "shape a ! i = shape b ! i" by simp
  with i have "map length (a ! i) = map length (b ! i)" by (simp add: shape_def)
  from shape_row_map2[OF this] i
  show "map (map length) (map2 (map2 (map2 f)) a b) ! i = map (map length) a ! i" by simp
qed

text \<open>What \<open>gradient_ascent\<close> returns when the gradient has the shape of the image.\<close>

lemma gradient_ascent_value:
  assumes "backward_grad ops m t input_text ids = Inr g"
    and "smoothed_grad h cfg iteration g = Inr sg"
    and "shape sg = shape (data t)"
  shows "gradient_ascent ops c h cfg m t input_text ids iteration
           = Inr \<lparr>data = clamp_data ops c (ascent_update ops cfg (data t) (normalize_grad ops sg)),
                  grad = Some (zeros_like ops g)\<rparr>"
  using assms by (simp add: gradient_ascent_def Let_def shape_normalize)

subsection \<open>The normalised gradient\<close>

lemma ex_backward:
  "backward_grad exact_ops ex_model ex_tensor ''Triangles'' [1] = Inr [[[Num 0, Num 2, Num 4]]]"
  by (simp add: backward_grad_def ex_model_def ex_tensor_def ex_image_def)

lemma ex_smoothed:
  "smoothed_grad (ex_helpers ex_image) ex_config 0 [[[Num 0, Num 2, Num 4]]]
     = Inr [[[Num 0, Num 2, Num 4]]]"
  by (simp add: smoothed_grad_def ex_helpers_def ex_config_def)

lemma ex_std: "torch_std (flatten [[[Num 0, Num 2, Num 4]]]) = Num 2"
  by (simp add: torch_std_def torch_mean_def flatten_def esum_def)

lemma zero_backward:
  "backward_grad exact_ops ex_model zero_tensor ''Triangles'' [1] = Inr [[[Num 0, Num 0]]]"
  by (simp add: backward_grad_def ex_model_def zero_tensor_def)

lemma zero_smoothed:
  "smoothed_grad (ex_helpers ex_image) ex_config 0 [[[Num 0, Num 0]]] = Inr [[[Num 0, Num 0]]]"
  by (simp add: smoothed_grad_def ex_helpers_def ex_config_def)

lemma zero_normalized: "normalize_grad exact_ops [[[Num 0, Num 0]]] = [[[NaN, NaN]]]"
  by (simp add: normalize_grad_def exact_ops_def torch_std_def torch_mean_def flatten_def esum_def tmap_def)

text \<open>One step on a concrete image: the update by half the normalised gradient, clamped.\<close>

lemma ex_step_value:
  "gradient_ascent exact_ops ex_constants (ex_helpers ex_image) ex_config ex_model ex_tensor
     ''Triangles'' [1] 0
   = Inr \<lparr>data = [[[Num (- 1 / 2), Num 1, Num 1]]], grad = Some [[[Num 0, Num 0, Num 0]]]\<rparr>"
proof -
  have sh: "shape [[[Num 0, Num 2, Num 4]]] = shape (data ex_tensor)"
    by (simp add: ex_tensor_def ex_image_def)
  have m: "torch_mean (flatten [[[Num 0, Num 2, Num 4]]]) = Num 2"
    by (simp add: torch_mean_def esum_def flatten_def)
  have n: "normalize_grad exact_ops [[[Num 0, Num 2, Num 4]]] = [[[Num (- 1), Num 0, Num 1]]]"
    unfolding normalize_grad_def exact_ops_def Let_def torch_ops.simps ex_std m
    by (simp add: tmap_def)
  have u: "clamp_data exact_ops ex_constants
             (ascent_update exact_ops ex_config (data ex_tensor) [[[Num (- 1), Num 0, Num 1]]])
           = [[[Num (- 1 / 2), Num 1, Num 1]]]"
    by (simp add: clamp_data_def ascent_update_def exact_ops_def ex_constants_def ex_config_def
        ex_tensor_def ex_image_def tzip_def tmap_def)
  have z: "zeros_like exact_ops [[[Num 0, Num 2, Num 4]]] = [[[Num 0, Num 0, Num 0]]]"
    by (simp add: zeros_like_def tmap_def exact_ops_def)
  show ?thesis
    unfolding gradient_ascent_value[OF ex_backward ex_smoothed sh] n u z by (rule refl)
qed

text \<open>
  C3, as the code has it, in exact arithmetic. When the backward pass and the smoothing
  return and the standard deviation of the smoothed gradient is a non-zero number, the
  normalised smoothed gradient has mean 0 and standard deviation 1, and for a smoothed
  gradient of the image's shape the call returns the clamp of the image plus \<open>lr\<close>
  times the normalised smoothed gradient.
\<close>

theorem gradient_ascent_normalised:
  assumes bw: "backward_grad exact_ops m t input_text ids = Inr g"
    and sg: "smoothed_grad h cfg iteration g = Inr sg"
    and std: "torch_std (flatten sg) = Num s" and nz: "s \<noteq> 0"
    and sh: "shape sg = shape (data t)"
  shows "torch_mean (flatten (normalize_grad exact_ops sg)) = Num 0
       \<and> torch_std (flatten (normalize_grad exact_ops sg)) = Num 1
       \<and> (\<exists>t'. gradient_ascent exact_ops c h cfg m t input_text ids iteration = Inr t'
              \<and> data t' = clamp_data exact_ops c
                            (tzip eadd (data t) (tmap (emul (Num (lr cfg))) (normalize_grad exact_ops sg))))"
proof -
  have "ascent_update exact_ops cfg (data t) (normalize_grad exact_ops sg)
        = tzip eadd (data t) (tmap (emul (Num (lr cfg))) (normalize_grad exact_ops sg))"
    by (simp add: ascent_update_def exact_ops_def)
  then show ?thesis
    using normalize_unit[OF std nz] gradient_ascent_value[OF bw sg sh, of c] by simp
qed

theorem gradient_ascent_normalised_witness:
  "torch_mean (flatten (normalize_grad exact_ops [[[Num 0, Num 2, Num 4]]])) = Num 0
   \<and> torch_std (flatten (normalize_grad exact_ops [[[Num 0, Num 2, Num 4]]])) = Num 1
   \<and> (\<exists>t'. gradient_ascent exact_ops ex_constants (ex_helpers ex_image) ex_config ex_model ex_tensor
             ''Triangles'' [1] 0 = Inr t'
          \<and> data t' = clamp_data exact_ops ex_constants
                (tzip eadd (data ex_tensor)
                   (tmap (emul (Num (lr ex_config))) (normalize_grad exact_ops [[[Num 0, Num 2, Num 4]]]))))"
proof -
  have nz: "(2::real) \<noteq> 0" by simp
  have sh: "shape [[[Num 0, Num 2, Num 4]]] = shape (data ex_tensor)"
    by (simp add: ex_tensor_def ex_image_def)
  show ?thesis
    by (rule gradient_ascent_normalised[OF ex_backward ex_smoothed ex_std nz sh])
qed

text \<open>
  C3 fails as stated: a constant smoothed gradient (here the zero gradient) has standard
  deviation zero, and its normalisation is \<open>nan\<close> everywhere, with neither mean 0 nor
  standard deviation 1.
\<close>

theorem normalisation_nan_counterexample:
  "backward_grad exact_ops ex_model zero_tensor ''Triangles'' [1] = Inr [[[Num 0, Num 0]]]
   \<and> smoothed_grad (ex_helpers ex_image) ex_config 0 [[[Num 0, Num 0]]] = Inr [[[Num 0, Num 0]]]
   \<and> torch_mean (flatten (normalize_grad exact_ops [[[Num 0, Num 0]]])) = NaN
   \<and> torch_std (flatten (normalize_grad exact_ops [[[Num 0, Num 0]]])) = NaN"
  using zero_backward zero_smoothed
  by (simp add: zero_normalized torch_mean_def torch_std_def flatten_def esum_def)

subsection \<open>The bounded update\<close>

lemma within_bounds_iff:
  "within_bounds c d \<longleftrightarrow> (\<forall>ch<length d. \<forall>row\<in>set (d ! ch). \<forall>x\<in>set row. elem_ok c ch x)"
proof
  assume wb: "within_bounds c d"
  show "\<forall>ch<length d. \<forall>row\<in>set (d ! ch). \<forall>x\<in>set row. elem_ok c ch x"
  proof (intro allI impI ballI)
    fix ch row x assume ch: "ch < length d" and row: "row \<in> set (d ! ch)" and x: "x \<in> set row"
    have "(ch, d ! ch) \<in> set (zip [0..<length d] d)"
      using ch by (simp add: set_zip) (rule exI[of _ ch], simp)
    with wb row x show "elem_ok c ch x" by (auto simp: within_bounds_def list_all_iff)
  qed
next
  assume r: "\<forall>ch<length d. \<forall>row\<in>set (d ! ch). \<forall>x\<in>set row. elem_ok c ch x"
  show "within_bounds c d"
    unfolding within_bounds_def list_all_iff
  proof (intro ballI)
    fix p assume "p \<in> set (zip [0..<length d] d)"
    then obtain i where "i < length d" "p = (i, d ! i)" by (auto simp: set_zip)
    with r show "case p of (ch, rows) \<Rightarrow> \<forall>row\<in>set rows. \<forall>x\<in>set row. elem_ok c ch x" by auto
  qed
qed

lemma fl_clamp_ok:
  assumes "x \<noteq> Nan" and "LOWER_IMAGE_BOUND c ch \<le> UPPER_IMAGE_BOUND c ch"
  shows "elem_ok c ch (fl_max (fl_min x (Val (Fin (UPPER_IMAGE_BOUND c ch))))
                              (Val (Fin (LOWER_IMAGE_BOUND c ch))))"
proof (cases x)
  case (Val v)
  then show ?thesis using assms(2) by (cases v) auto
next
  case Nan
  with assms(1) show ?thesis by simp
qed

lemma clamp_within_bounds:
  assumes ar: "float_arithmetic ops" and rep: "bounds_representable ops c"
    and bounds: "\<forall>ch. LOWER_IMAGE_BOUND c ch \<le> UPPER_IMAGE_BOUND c ch"
    and nn: "Nan \<notin> set (flatten d)"
  shows "within_bounds c (clamp_data ops c d)"
  unfolding within_bounds_iff length_clamp
proof (intro allI impI ballI)
  fix ch row x assume ch: "ch < length d" and row: "row \<in> set (clamp_data ops c d ! ch)" and x: "x \<in> set row"
  let ?cl = "\<lambda>x. fl_max (fl_min x (Val (Fin (UPPER_IMAGE_BOUND c ch)))) (Val (Fin (LOWER_IMAGE_BOUND c ch)))"
  have cl: "(\<lambda>x. t_max ops (t_min ops x (t_scalar ops (UPPER_IMAGE_BOUND c ch)))
                          (t_scalar ops (LOWER_IMAGE_BOUND c ch))) = ?cl"
    using ar rep by (simp add: float_arithmetic_def bounds_representable_def)
  from row ch obtain r0 where r0: "r0 \<in> set (d ! ch)" "row = map ?cl r0"
    by (auto simp: nth_clamp cl)
  from x r0 obtain y where y: "y \<in> set r0" "x = ?cl y" by auto
  have "y \<in> set (flatten d)" using y r0 ch by (auto simp: set_flatten intro: nth_mem)
  with nn have "y \<noteq> Nan" by auto
  from fl_clamp_ok[OF this, of c ch] bounds y(2) show "elem_ok c ch x" by simp
qed

lemma all_zeros_zeros_like: "float_arithmetic ops \<Longrightarrow> all_zeros (zeros_like ops g)"
  by (simp add: all_zeros_def zeros_like_def flatten_tmap list_all_iff float_arithmetic_def)

lemma is_finite_iff: "is_finite x \<longleftrightarrow> (\<exists>a. x = Val (Fin a))"
  by (cases x rule: is_finite.cases) auto

text \<open>The update of a finite image by a finite smoothed gradient has no \<open>nan\<close>.\<close>

lemma update_no_nan:
  assumes ar: "float_arithmetic ops"
    and std: "t_std ops (flatten sg) = Val (Fin s)" and nz: "s \<noteq> 0"
    and mean: "t_mean ops (flatten sg) \<noteq> Nan"
    and lrate: "t_scalar ops (lr cfg) = Val (Fin l)" and lnz: "l \<noteq> 0"
    and fin_sg: "list_all is_finite (flatten sg)"
    and fin_img: "list_all is_finite (flatten d)"
  shows "Nan \<notin> set (flatten (ascent_update ops cfg d (normalize_grad ops sg)))"
proof
  assume "Nan \<in> set (flatten (ascent_update ops cfg d (normalize_grad ops sg)))"
  then obtain a b where a: "a \<in> set (flatten d)"
    and b: "b \<in> set (flatten (tmap (t_mul ops (t_scalar ops (lr cfg))) (normalize_grad ops sg)))"
    and e: "Nan = t_add ops a b"
    unfolding ascent_update_def by (blast dest: set_flatten_tzip)
  from a fin_img obtain av where av: "a = Val (Fin av)"
    by (auto simp: list_all_iff is_finite_iff)
  from b obtain x where x: "x \<in> set (flatten sg)"
    and bx: "b = t_mul ops (Val (Fin l))
                   (t_div ops (t_sub ops x (t_mean ops (flatten sg))) (Val (Fin s)))"
    by (auto simp: flatten_tmap normalize_grad_def Let_def std lrate)
  from x fin_sg obtain xv where xv: "x = Val (Fin xv)"
    by (auto simp: list_all_iff is_finite_iff)
  have 1: "t_sub ops x (t_mean ops (flatten sg)) \<noteq> Nan"
    using ar mean unfolding xv float_arithmetic_def by blast
  have 2: "t_div ops (t_sub ops x (t_mean ops (flatten sg))) (Val (Fin s)) \<noteq> Nan"
    using ar 1 nz unfolding float_arithmetic_def by blast
  have 3: "b \<noteq> Nan"
    using ar 2 lnz unfolding bx float_arithmetic_def by blast
  have "t_add ops a b \<noteq> Nan"
    using ar 3 unfolding av float_arithmetic_def by blast
  with e show False by simp
qed

lemma float_unrounded: "float_arithmetic unrounded_ops"
proof -
  have a: "fl_add (Val (Fin a)) y \<noteq> Nan" if "y \<noteq> Nan" for a y
    using that by (cases "(Val (Fin a), y)" rule: fl_add.cases) auto
  have n: "fl_neg y \<noteq> Nan" if "y \<noteq> Nan" for y
    using that by (cases y rule: fl_neg.cases) auto
  have m: "fl_mul (Val (Fin a)) y \<noteq> Nan" if "a \<noteq> 0" "y \<noteq> Nan" for a y
    using that by (cases "(Val (Fin a), y)" rule: fl_mul.cases) (auto simp: inf_of_sign_def)
  have d: "fl_div x (Val (Fin b)) \<noteq> Nan" if "x \<noteq> Nan" "b \<noteq> 0" for x b
    using that by (cases "(x, Val (Fin b))" rule: fl_div.cases) (auto simp: inf_of_sign_def)
  show ?thesis
    using a n m d by (simp add: float_arithmetic_def unrounded_ops_def fl_sub_def)
qed

lemma ex_representable: "bounds_representable unrounded_ops ex_constants"
  by (simp add: bounds_representable_def unrounded_ops_def)

lemma ex_bounds: "\<forall>ch. LOWER_IMAGE_BOUND ex_constants ch \<le> UPPER_IMAGE_BOUND ex_constants ch"
  by (simp add: ex_constants_def)

lemma fl_backward:
  "backward_grad unrounded_ops ex_model fl_tensor ''Triangles'' [1]
     = Inr [[[Val (Fin 0), Val (Fin 2), Val (Fin 4)]]]"
  by (simp add: backward_grad_def ex_model_def fl_tensor_def fl_image_def)

lemma fl_smoothed:
  "smoothed_grad (ex_helpers fl_image) ex_config 0 [[[Val (Fin 0), Val (Fin 2), Val (Fin 4)]]]
     = Inr [[[Val (Fin 0), Val (Fin 2), Val (Fin 4)]]]"
  by (simp add: smoothed_grad_def ex_helpers_def ex_config_def)

lemma fl_ex_mean:
  "t_mean unrounded_ops (flatten [[[Val (Fin 0), Val (Fin 2), Val (Fin 4)]]]) = Val (Fin 2)"
  by (simp add: unrounded_ops_def fl_mean_def fl_sum_def flatten_def)

lemma fl_ex_std:
  "t_std unrounded_ops (flatten [[[Val (Fin 0), Val (Fin 2), Val (Fin 4)]]]) = Val (Fin 2)"
  by (simp add: unrounded_ops_def fl_std_def fl_mean_def fl_sum_def fl_sub_def flatten_def)

lemma fl_zero_backward:
  "backward_grad unrounded_ops ex_model fl_zero_tensor ''Triangles'' [1]
     = Inr [[[Val (Fin 0), Val (Fin 0)]]]"
  by (simp add: backward_grad_def ex_model_def fl_zero_tensor_def)

lemma fl_zero_smoothed:
  "smoothed_grad (ex_helpers fl_image) ex_config 0 [[[Val (Fin 0), Val (Fin 0)]]]
     = Inr [[[Val (Fin 0), Val (Fin 0)]]]"
  by (simp add: smoothed_grad_def ex_helpers_def ex_config_def)

lemma fl_zero_normalized:
  "normalize_grad unrounded_ops [[[Val (Fin 0), Val (Fin 0)]]] = [[[Nan, Nan]]]"
  by (simp add: normalize_grad_def unrounded_ops_def fl_std_def fl_mean_def fl_sum_def fl_sub_def
      flatten_def tmap_def inf_of_sign_def)

text \<open>
  C2, as the code has it, in floating point. \<open>gradient_ascent\<close> divides the centred
  smoothed gradient by its standard deviation without a guard. In any floating point
  arithmetic: when the backward pass and the smoothing return, the computed standard
  deviation of the smoothed gradient is a finite non-zero number and its computed mean is
  not \<open>nan\<close>, the smoothed gradient and the image hold only finite numbers, the learning
  rate is a finite non-zero number, and the image bounds of every channel are ordered,
  then the call returns, every element of the image is a finite number within the bounds
  of its channel, the image keeps its shape and the gradient buffer is all zeros.
\<close>

theorem gradient_ascent_bounded:
  assumes ar: "float_arithmetic ops" and rep: "bounds_representable ops c"
    and bounds: "\<forall>ch. LOWER_IMAGE_BOUND c ch \<le> UPPER_IMAGE_BOUND c ch"
    and bw: "backward_grad ops m t input_text ids = Inr g"
    and sg: "smoothed_grad h cfg iteration g = Inr sg"
    and std: "t_std ops (flatten sg) = Val (Fin s)" and nz: "s \<noteq> 0"
    and mean: "t_mean ops (flatten sg) \<noteq> Nan"
    and lrate: "t_scalar ops (lr cfg) = Val (Fin l)" and lnz: "l \<noteq> 0"
    and fin_sg: "list_all is_finite (flatten sg)"
    and fin_img: "list_all is_finite (flatten (data t))"
    and sh: "shape sg = shape (data t)"
  shows "\<exists>t'. gradient_ascent ops c h cfg m t input_text ids iteration = Inr t'
           \<and> within_bounds c (data t') \<and> shape (data t') = shape (data t)
           \<and> (\<exists>z. grad t' = Some z \<and> all_zeros z)"
proof -
  let ?u = "ascent_update ops cfg (data t) (normalize_grad ops sg)"
  have "Nan \<notin> set (flatten ?u)"
    by (rule update_no_nan[OF ar std nz mean lrate lnz fin_sg fin_img])
  then have "within_bounds c (clamp_data ops c ?u)"
    by (rule clamp_within_bounds[OF ar rep bounds])
  moreover have "shape (clamp_data ops c ?u) = shape (data t)"
    by (simp add: shape_clamp ascent_update_def shape_tzip shape_tmap shape_normalize sh)
  ultimately show ?thesis
    using gradient_ascent_value[OF bw sg sh, of c] all_zeros_zeros_like[OF ar] by simp
qed

theorem gradient_ascent_bounded_witness:
  "\<exists>t'. gradient_ascent unrounded_ops ex_constants (ex_helpers fl_image) ex_config ex_model fl_tensor
          ''Triangles'' [1] 0 = Inr t'
      \<and> within_bounds ex_constants (data t') \<and> shape (data t') = shape (data fl_tensor)
      \<and> (\<exists>z. grad t' = Some z \<and> all_zeros z)"
proof -
  have nz: "(2::real) \<noteq> 0" by simp
  have mean: "t_mean unrounded_ops (flatten [[[Val (Fin 0), Val (Fin 2), Val (Fin 4)]]]) \<noteq> Nan"
    by (simp add: fl_ex_mean)
  have lrate: "t_scalar unrounded_ops (lr ex_config) = Val (Fin (1 / 2))"
    by (simp add: unrounded_ops_def ex_config_def)
  have lnz: "(1 / 2 :: real) \<noteq> 0" by simp
  have fin_sg: "list_all is_finite (flatten [[[Val (Fin 0), Val (Fin 2), Val (Fin 4)]]])"
    by (simp add: flatten_def)
  have fin_img: "list_all is_finite (flatten (data fl_tensor))"
    by (simp add: fl_tensor_def fl_image_def flatten_def)
  have sh: "shape [[[Val (Fin 0), Val (Fin 2), Val (Fin 4)]]] = shape (data fl_tensor)"
    by (simp add: fl_tensor_def fl_image_def)
  show ?thesis
    by (rule gradient_ascent_bounded[OF float_unrounded ex_representable ex_bounds fl_backward
          fl_smoothed fl_ex_std nz mean lrate lnz fin_sg fin_img sh])
qed

text \<open>
  C2 fails as stated: with a zero gradient the standard deviation is zero, the
  normalisation is \<open>0 / 0\<close>, and the clamp leaves \<open>nan\<close> in the image.
\<close>

theorem gradient_ascent_nan_counterexample:
  "gradient_ascent unrounded_ops ex_constants (ex_helpers fl_image) ex_config ex_model fl_zero_tensor
     ''Triangles'' [1] 0
     = Inr \<lparr>data = [[[Nan, Nan]]], grad = Some [[[Val (Fin 0), Val (Fin 0)]]]\<rparr>
   \<and> \<not> within_bounds ex_constants [[[Nan, Nan]]]"
proof -
  have sh: "shape [[[Val (Fin 0), Val (Fin 0)]]] = shape (data fl_zero_tensor)"
    by (simp add: shape_def fl_zero_tensor_def)
  have "clamp_data unrounded_ops ex_constants
          (ascent_update unrounded_ops ex_config (data fl_zero_tensor) [[[Nan, Nan]]])
        = [[[Nan, Nan]]]"
    by (simp add: clamp_data_def ascent_update_def fl_zero_tensor_def tzip_def tmap_def unrounded_ops_def)
  moreover have "zeros_like unrounded_ops [[[Val (Fin 0), Val (Fin 0)]]] = [[[Val (Fin 0), Val (Fin 0)]]]"
    by (simp add: zeros_like_def tmap_def unrounded_ops_def)
  moreover have "\<not> within_bounds ex_constants [[[Nan, Nan]]]"
    by (simp add: within_bounds_def)
  ultimately show ?thesis
    unfolding gradient_ascent_value[OF fl_zero_backward fl_zero_smoothed sh] fl_zero_normalized
    by simp
qed

section \<open>Random spatial jitter\<close>









text \<open>On a concrete tensor: a shift by one column to the left, and its undo.\<close>

lemma roll_ex1: "roll (- 1) [a, b, c] = [b, c, a]"
  by (simp add: roll_def eval_nat_numeral)

lemma roll_ex2: "roll 1 [b, c, a] = [a, b, c]"
  by (simp add: roll_def eval_nat_numeral)

lemma roll_ex0: "roll 0 xs = xs"
  by (simp add: roll_def)

lemma ex_shift_moves:
  "data (random_circular_spatial_shift ex_tensor 0 (- 1) False) = [[[Num 2, Num 4, Num 0]]]"
  "data (random_circular_spatial_shift \<lparr>data = [[[Num 2, Num 4, Num 0]]], grad = None\<rparr> 0 (- 1) True)
     = [[[Num 0, Num 2, Num 4]]]"
  by (simp_all add: random_circular_spatial_shift_def torch_roll_def ex_tensor_def
      ex_image_def roll_ex0 roll_ex1 roll_ex2)

lemma randint_range:
  assumes "low < high"
  shows "\<exists>a b. np_random_randint low high g = Inr ((a, b), (\<lambda>i. g (i + 2)))
           \<and> low \<le> a \<and> a < high \<and> low \<le> b \<and> b < high"
proof -
  have p: "0 < nat (high - low)" using assms by simp
  have m: "int (g i mod nat (high - low)) < high - low" for i
    using mod_less_divisor[OF p, of "g i"] by linarith
  show ?thesis using assms m[of 0] m[of 1] by (simp add: np_random_randint_def)
qed





section \<open>Dreaming one image\<close>

lemma py_index_None: "py_index xs x = None \<longleftrightarrow> x \<notin> set xs"
  by (induction xs) auto

lemma py_index_Some: "py_index xs x = Some i \<Longrightarrow> x \<in> set xs"
  using py_index_None[of xs x] by auto

lemma layer_ids_None: "layer_ids names ls = None \<longleftrightarrow> (\<exists>l\<in>set ls. l \<notin> set names)"
  by (induction ls) (auto simp: py_index_None split: option.splits dest: py_index_Some)


lemma layer_lookup_missing:
  assumes "layer_names m = Some names" and "\<exists>l\<in>set (layers_to_use cfg). l \<notin> set names"
  shows "layer_lookup m cfg = Inl ValueError"
proof -
  from assms(2) have "layers_to_use cfg \<noteq> []" by auto
  moreover from assms(2) have "layer_ids names (layers_to_use cfg) = None"
    by (simp add: layer_ids_None)
  ultimately show ?thesis by (simp add: layer_lookup_def assms(1))
qed



subsection \<open>The loops against the pyramid of the spec\<close>

lemma ascent_refines:
  "ascent_iterations ops c h cfg m input_text ids its (t, g, n)
     = (case repeat_over (one_iteration ops c h cfg m input_text ids) its (t, g) of
          Inl e \<Rightarrow> Inl e
        | Inr (t', g') \<Rightarrow> Inr (t', g', n + length its))"
proof (induction its arbitrary: t g n)
  case Nil
  then show ?case by simp
next
  case (Cons iteration rest)
  show ?case
  proof (cases "np_random_randint (- spatial_shift_size cfg) (spatial_shift_size cfg + 1) g")
    case (Inl e)
    then show ?thesis by (simp add: one_iteration_def)
  next
    case (Inr r)
    obtain h_shift w_shift g' where r: "r = ((h_shift, w_shift), g')" by (cases r) auto
    show ?thesis
    proof (cases "gradient_ascent ops c h cfg m (random_circular_spatial_shift t h_shift w_shift False)
                    input_text ids (int iteration)")
      case (Inl e)
      then show ?thesis using Inr r by (simp add: one_iteration_def)
    next
      case ga: (Inr t1)
      have "one_iteration ops c h cfg m input_text ids iteration (t, g)
              = Inr (random_circular_spatial_shift t1 h_shift w_shift True, g')"
        using Inr r ga by (simp add: one_iteration_def)
      then show ?thesis
        using Inr r ga Cons.IH[of "random_circular_spatial_shift t1 h_shift w_shift True" g' "Suc n"]
        by (simp split: sum.splits)
    qed
  qed
qed

lemma pyramid_refines:
  "pyramid_levels ops c h cfg m input_text ids base lvls (img, g, lv, n)
     = (case repeat_over (one_level ops c h cfg m input_text ids base) lvls (img, g) of
          Inl e \<Rightarrow> Inl e
        | Inr (img', g') \<Rightarrow>
            Inr (img', g', lv + length lvls,
                 n + length lvls * nat (num_gradient_ascent_iterations cfg)))"
proof (induction lvls arbitrary: img g lv n)
  case Nil
  then show ?case by simp
next
  case (Cons level rest)
  let ?its = "[0..<nat (num_gradient_ascent_iterations cfg)]"
  define new_shape where "new_shape = get_new_shape h cfg base level"
  define fixed where "fixed = (class_name m \<in> set (FixedImageResolutionClasses c))"
  define img1 where "img1 = cv_resize h img (snd new_shape, fst new_shape)"
  define img2 where "img2 = (if fixed then pad_image_to_shape h img1 base else img1)"
  define t0 where "t0 = \<lparr>data = pytorch_input_adapter h img2, grad = None\<rparr>"
  define inner where "inner = repeat_over (one_iteration ops c h cfg m input_text ids) ?its (t0, g)"
  have it: "ascent_iterations ops c h cfg m input_text ids ?its (t0, g, n)
              = (case inner of Inl e \<Rightarrow> Inl e | Inr (t', g') \<Rightarrow> Inr (t', g', n + length ?its))"
    unfolding inner_def by (rule ascent_refines)
  have lvl: "one_level ops c h cfg m input_text ids base level (img, g)
              = (case inner of
                   Inl e \<Rightarrow> Inl e
                 | Inr (t', g') \<Rightarrow>
                     Inr (if fixed
                          then extract_original_from_padded h (pytorch_output_adapter h (data t')) new_shape
                          else pytorch_output_adapter h (data t'), g'))"
    unfolding one_level_def Let_def inner_def t0_def img2_def img1_def fixed_def new_shape_def
    by simp
  have step: "pyramid_levels ops c h cfg m input_text ids base (level # rest) (img, g, lv, n)
              = (case inner of
                   Inl e \<Rightarrow> Inl e
                 | Inr (t', g') \<Rightarrow>
                     pyramid_levels ops c h cfg m input_text ids base rest
                       (if fixed
                        then extract_original_from_padded h (pytorch_output_adapter h (data t')) new_shape
                        else pytorch_output_adapter h (data t'), g', Suc lv, n + length ?its))"
    unfolding pyramid_levels.simps Let_def
    using it unfolding t0_def img2_def img1_def fixed_def new_shape_def
    by (simp split: sum.splits)
  show ?case
  proof (cases inner)
    case (Inl e)
    then show ?thesis unfolding step by (simp add: lvl)
  next
    case (Inr r)
    obtain t' g' where r: "r = (t', g')" by (cases r) auto
    show ?thesis
      unfolding step repeat_over.simps lvl Inr r
      by (simp add: Cons.IH algebra_simps split: sum.splits)
  qed
qed

lemma static_image_refines:
  assumes "layer_lookup m cfg = Inr ids"
  shows "deep_dream_static_image ops c h m cfg img g
           = (case pyramid_spec ops c h m cfg ids img g of
                Inl e \<Rightarrow> Inl e
              | Inr (img', g') \<Rightarrow>
                  Inr \<lparr>result = Some (post_process_numpy_img h img'), rng_after = g',
                       levels_run = nat (pyramid_size cfg),
                       steps_run = nat (pyramid_size cfg) * nat (num_gradient_ascent_iterations cfg)\<rparr>)"
  unfolding deep_dream_static_image_def assms sum.case Let_def pyramid_refines pyramid_spec_def
  by (simp split: sum.splits)

subsection \<open>When the pyramid returns\<close>







text \<open>Without a layer the first gradient ascent step raises.\<close>

lemma no_layer_raises:
  assumes "layers_to_use cfg = []" and "0 < pyramid_size cfg" and "0 < num_gradient_ascent_iterations cfg"
    and "0 \<le> spatial_shift_size cfg"
  shows "deep_dream_static_image ops c h m cfg img g = Inl RuntimeError"
proof -
  from assms(2) obtain p where p: "nat (pyramid_size cfg) = Suc p"
    by (cases "nat (pyramid_size cfg)") auto
  from assms(3) obtain n where n: "nat (num_gradient_ascent_iterations cfg) = Suc n"
    by (cases "nat (num_gradient_ascent_iterations cfg)") auto
  have up: "[0..<Suc p] = 0 # [1..<Suc p]" "[0..<Suc n] = 0 # [1..<Suc n]"
    by (simp_all add: upt_rec)
  have lt: "- spatial_shift_size cfg < spatial_shift_size cfg + 1" using assms(4) by simp
  have r: "\<exists>a b. np_random_randint (- spatial_shift_size cfg) (spatial_shift_size cfg + 1) g
          = Inr ((a, b), (\<lambda>i. g (i + 2)))" for g
    using randint_range[OF lt, of g] by blast
  have ga: "gradient_ascent ops c h cfg m t input_text [] iteration = Inl RuntimeError"
    for t input_text iteration
    by (simp add: gradient_ascent_def backward_grad_def)
  have it: "one_iteration ops c h cfg m input_text [] 0 st = Inl RuntimeError" for input_text st
    using r[of "snd st"] by (auto simp: one_iteration_def ga)
  have lv: "one_level ops c h cfg m input_text [] base 0 st = Inl RuntimeError" for input_text base st
    by (simp add: one_level_def Let_def n up(2) it del: upt_Suc)
  have "pyramid_spec ops c h m cfg [] img g = Inl RuntimeError"
    by (simp add: pyramid_spec_def p up(1) lv del: upt_Suc)
  moreover have "layer_lookup m cfg = Inr []"
    by (simp add: layer_lookup_def assms(1))
  ultimately show ?thesis by (simp add: static_image_refines)
qed


lemma ex_names: "layer_names ex_model = Some [''relu3_3'', ''relu4_3'']"
  by (simp add: ex_model_def)



lemma bad_lookup: "\<exists>l\<in>set (layers_to_use bad_layer_config). l \<notin> set [''relu3_3'', ''relu4_3'']"
  by (simp add: bad_layer_config_def ex_config_def)



subsection \<open>An unknown layer name\<close>

text \<open>
  C9, as the code has it. If a name of \<open>config['layers_to_use']\<close> is not in the list
  \<open>model.layer_names\<close>, \<open>deep_dream_static_image\<close> returns \<open>None\<close> and has run no
  pyramid level and no gradient ascent step; the random generator is untouched.
\<close>

theorem invalid_layer_returns_none:
  assumes "layer_names m = Some names" and "\<exists>l\<in>set (layers_to_use cfg). l \<notin> set names"
  shows "deep_dream_static_image ops c h m cfg img g
           = Inr \<lparr>result = None, rng_after = g, levels_run = 0, steps_run = 0\<rparr>"
  using layer_lookup_missing[OF assms] assms(1) by (simp add: deep_dream_static_image_def)

theorem invalid_layer_returns_none_witness:
  "deep_dream_static_image exact_ops ex_constants (ex_helpers ex_image) ex_model bad_layer_config
     (Some ex_image) ex_rng
     = Inr \<lparr>result = None, rng_after = ex_rng, levels_run = 0, steps_run = 0\<rparr>"
  by (rule invalid_layer_returns_none[OF ex_names bad_lookup])

text \<open>
  C9 fails as stated, in its parenthesis: the lookup also raises when the object given as
  the model has no attribute \<open>layer_names\<close>, and then the handler, which prints
  \<open>model.layer_names\<close>, raises again: the function does not return \<open>None\<close>.
\<close>

theorem lookup_raises_counterexample:
  "layer_lookup no_names_model ex_config = Inl AttributeError
   \<and> deep_dream_static_image exact_ops ex_constants (ex_helpers ex_image) no_names_model ex_config
       (Some ex_image) ex_rng = Inl AttributeError"
  by (simp add: deep_dream_static_image_def layer_lookup_def no_names_model_def ex_config_def)

subsection \<open>What a call returns\<close>




subsection \<open>The number of gradient ascent steps\<close>




section \<open>The modes\<close>

subsection \<open>The calls of \<open>deep_dream_static_image\<close>\<close>

text \<open>
  The function has three parameters. The call of the ouroboros loop and of the video loop
  passes two positional arguments, the call of the static image mode one positional
  argument and the keyword \<open>img\<close>: each leaves a parameter without a value.
\<close>

lemma call_two_positional:
  "call_deep_dream_static_image ops c h g [a, b] [] = Inl TypeError"
  by (simp add: call_deep_dream_static_image_def py_bind_def)

lemma call_config_img_keyword:
  "call_deep_dream_static_image ops c h g [a] [(''img'', b)] = Inl TypeError"
  by (simp add: call_deep_dream_static_image_def py_bind_def)

text \<open>A call with the model, the configuration and the image runs the function.\<close>

lemma call_three_positional:
  "call_deep_dream_static_image ops c h g [ArgModel m, ArgConfig cfg, ArgImage img] []
     = deep_dream_static_image ops c h m cfg img g"
  by (simp add: call_deep_dream_static_image_def py_bind_def)

lemma ouroboros_loop_raises:
  "ouroboros_loop ops c h cfg (frame_id # rest) (frame, g, tr) = (tr @ [DreamCall frame_id frame], Inl TypeError)"
  by (simp add: call_two_positional)

lemma static_mode_raises: "dream_static_mode ops c h cfg g = ([DreamCall 0 None], Inl TypeError)"
  by (simp add: dream_static_mode_def call_config_img_keyword)

lemma video_loop_raises:
  "video_loop ops c h cfg dir ((frame_id, frame_name) # rest) (None, fr, g, tr)
     = (tr @ [Loaded frame_id (load_image h (os_path_join dir frame_name) (img_dimensions cfg)),
              DreamCall frame_id (Some (load_image h (os_path_join dir frame_name) (img_dimensions cfg)))],
        Inl TypeError)"
  by (cases "blend cfg") (simp_all add: Let_def call_two_positional)

lemma ex_ext: "list_ex (py_endswith (py_lower (input_name ex_config))) (SUPPORTED_IMAGE_FORMATS ex_constants)"
  by (simp add: ex_config_def ex_constants_def py_endswith_def py_lower_def)

subsection \<open>Ouroboros\<close>

text \<open>
  C7, on the code: with an input name that ends in a supported image extension and a
  positive \<open>ouroboros_length\<close>, the ouroboros mode ends in \<open>TypeError\<close> at the
  dreaming call of its first iteration; nothing is dreamed, saved or transformed, and no
  video is assembled.
\<close>

theorem ouroboros_raises:
  assumes "list_ex (py_endswith (py_lower (input_name cfg))) (SUPPORTED_IMAGE_FORMATS c)"
    and "0 < ouroboros_length cfg"
  shows "deep_dream_video_ouroboros ops c h cfg g =
           ([DreamCall 0 (if use_noise cfg then None
                          else Some (load_image h (parse_input_file h (input cfg)) (img_dimensions cfg)))],
            Inl TypeError)"
proof -
  from assms(2) obtain n where n: "nat (ouroboros_length cfg) = Suc n"
    by (cases "nat (ouroboros_length cfg)") auto
  have "[0..<nat (ouroboros_length cfg)] = 0 # [1..<Suc n]"
    unfolding n by (simp add: upt_rec)
  then show ?thesis
    using assms(1)
    by (simp add: deep_dream_video_ouroboros_def Let_def ouroboros_loop_raises del: ouroboros_loop.simps)
qed

theorem ouroboros_raises_witness:
  "deep_dream_video_ouroboros exact_ops ex_constants (ex_helpers ex_image) ex_config ex_rng =
     ([DreamCall 0 (if use_noise ex_config then None
                    else Some (load_image (ex_helpers ex_image) (parse_input_file (ex_helpers ex_image) (input ex_config))
                                 (img_dimensions ex_config)))],
      Inl TypeError)"
proof -
  have "0 < ouroboros_length ex_config" by (simp add: ex_config_def)
  with ex_ext show ?thesis by (rule ouroboros_raises)
qed

subsection \<open>Frame extraction\<close>


lemma char_of_digits: "char_of (50::nat) = CHR ''2''" "char_of (57::nat) = CHR ''9''"
  by code_simp+

lemma str_int_29: "str_int 29 = ''29''"
proof -
  have "str_nat 29 = str_nat 2 @ ''9''"
    by (subst str_nat.simps) (simp add: char_of_digits)
  also have "str_nat 2 = ''2''"
    by (subst str_nat.simps) (simp add: char_of_digits)
  finally have "str_nat 29 = ''29''" by simp
  then show ?thesis by (simp add: str_int_def)
qed


subsection \<open>Frame by frame video\<close>

text \<open>
  C6, on the code: when the transcoder is found and has extracted at least one frame, the
  video mode loads the first frame, hands it unblended to the dreaming call, and ends
  there in \<open>TypeError\<close>: no frame is dreamed or saved, no later frame is loaded, and no
  frame is ever blended.
\<close>

theorem video_first_frame_raises:
  assumes "py_truthy (which sys ''ffmpeg'')"
    and "sorted_listdir sys (os_path_join (OUT_VIDEOS_PATH c) ''tmp_input'') = frame_name # rest"
  shows "deep_dream_video ops c h sys cfg g =
           ([Subprocess [''ffmpeg'', ''-i'', parse_input_file h (input cfg), ''-r'',
                         str_int (py_int (video_fps sys (parse_input_file h (input cfg)))),
                         ''-loglevel'', ''warning'',
                         os_path_join (os_path_join (OUT_VIDEOS_PATH c) ''tmp_input'') ''frame_%6d.jpg''],
             Loaded 0 (load_image h (os_path_join (os_path_join (OUT_VIDEOS_PATH c) ''tmp_input'') frame_name)
                         (img_dimensions cfg)),
             DreamCall 0 (Some (load_image h
                                  (os_path_join (os_path_join (OUT_VIDEOS_PATH c) ''tmp_input'') frame_name)
                                  (img_dimensions cfg)))],
            Inl TypeError)"
  using assms
  by (simp add: deep_dream_video_def extract_frames_def Let_def enumerate_simps video_loop_raises
      del: video_loop.simps)

theorem video_first_frame_raises_witness:
  "deep_dream_video exact_ops ex_constants (ex_helpers ex_image) ex_system ex_config ex_rng =
     ([Subprocess [''ffmpeg'', ''-i'', ''figures.jpg'', ''-r'', ''29'', ''-loglevel'', ''warning'',
                   ''data/out-videos/tmp_input/frame_%6d.jpg''],
       Loaded 0 ex_image, DreamCall 0 (Some ex_image)],
      Inl TypeError)"
proof -
  have w: "py_truthy (which ex_system ''ffmpeg'')" by (simp add: py_truthy_def ex_system_def)
  have l: "sorted_listdir ex_system (os_path_join (OUT_VIDEOS_PATH ex_constants) ''tmp_input'')
             = ''frame_000001.jpg'' # [''frame_000002.jpg'']"
    by (simp add: ex_system_def)
  have f: "parse_input_file (ex_helpers ex_image) (input ex_config) = ''figures.jpg''"
    by (simp add: ex_helpers_def ex_config_def)
  have i: "py_int (video_fps ex_system ''figures.jpg'') = 29"
    by (simp add: py_int_def ex_system_def)
  have d: "os_path_join (OUT_VIDEOS_PATH ex_constants) ''tmp_input'' = ''data/out-videos/tmp_input''"
    by (simp add: os_path_join_def ex_constants_def)
  have p: "os_path_join ''data/out-videos/tmp_input'' ''frame_%6d.jpg''
           = ''data/out-videos/tmp_input/frame_%6d.jpg''"
    by (simp add: os_path_join_def)
  have ld: "load_image (ex_helpers ex_image) = (\<lambda>_ _. ex_image)"
    by (simp add: ex_helpers_def)
  from video_first_frame_raises[OF w l, of exact_ops "ex_helpers ex_image" ex_config ex_rng]
  show ?thesis unfolding f i d p ld str_int_29 .
qed


section \<open>Clipped zoom\<close>

lemma np_round_half: "np_round (5 / 2) = 2"
  by (simp add: np_round_def Let_def)

lemma np_round_four: "np_round 4 = 4"
  by (simp add: np_round_def Let_def)

lemma slice_mid: "py_slice [a, b, c, d, e] 1 3 = [b, c]"
  by (simp add: py_slice_def slice_bounds_def Let_def)

lemma slice_neg: "py_slice [a, b, c, d] (- 1) 4 = [d]"
  by (simp add: py_slice_def slice_bounds_def Let_def)

lemma zoom_2x2:
  "ndimage_zoom interp [[a, b], [c, d]] 2 =
     Inr (map (\<lambda>i. map (\<lambda>j. interp 2 [[a, b], [c, d]] i j) [0, 1, 2, 3]) [0, 1, 2, 3])"
proof -
  have u: "[0..<4] = [0, 1, 2, 3::nat]" by (simp add: upt_rec)
  show ?thesis
    by (simp add: ndimage_zoom_def height_def width_def np_round_four Let_def u)
qed

lemma np_round_small: "np_round (2 / 5) = 0" "np_round (6 / 5) = 1"
  by (simp_all add: np_round_def Let_def)

lemma zoom_no_rows: "ndimage_zoom interp [[a, b, c]] (2 / 5) = Inr []"
  by (simp add: ndimage_zoom_def height_def width_def np_round_small Let_def)

lemma zoom_shape_no_rows: "zoom_shape [[a, b, c]] (2 / 5) = (0, 1)"
  by (simp add: zoom_shape_def height_def width_def np_round_small)

lemma assign_no_rows:
  "assign_region [[z, z, z]] 0 0 1 2 (0, 1) src = Inr [[z, z, z]]"
  by (simp add: assign_region_def slice_bounds_def height_def width_def Let_def enumerate_simps)

text \<open>
  Zooming out so far that the zoomed array has no row assigns nothing, and the result is
  the array of zeros.
\<close>

lemma clipped_zoom_no_rows:
  "clipped_zoom interp zero [[a, b, c]] (2 / 5) = Inr [[zero, zero, zero]]"
proof -
  have lt: "(2 / 5 :: real) < 1" by simp
  have s: "real (height [[a, b, c]]) * (2 / 5) = 2 / 5" "real (width [[a, b, c]]) * (2 / 5) = 6 / 5"
    by (simp_all add: height_def width_def)
  have hw: "int (height [[a, b, c]]) = 1" "int (width [[a, b, c]]) = 3"
    by (simp_all add: height_def width_def)
  show ?thesis
    unfolding clipped_zoom_def Let_def s np_round_small hw zoom_no_rows zoom_shape_no_rows
    using lt assign_no_rows[of zero] by simp
qed

text \<open>A zoom factor of 1 returns the input array.\<close>

lemma clipped_zoom_identity: "clipped_zoom interp zero img 1 = Inr img"
  by (simp add: clipped_zoom_def)

text \<open>
  C10, on the code: zooming a 5 by 5 image by the factor 2 returns a 1 by 1 image. The
  cropped region has \<open>round(5 / 2) = 2\<close> rows, its zoom 4 rows, one fewer than the
  input; the trimming offset \<open>(4 - 5) // 2 = -1\<close> is negative, and the slice from
  \<open>-1\<close> to \<open>4\<close> keeps the last row only. The columns go the same way.
\<close>

lemma clipped_zoom_5x5_twice:
  "clipped_zoom interp zero
     [[p00, p01, p02, p03, p04], [p10, p11, p12, p13, p14], [p20, p21, p22, p23, p24],
      [p30, p31, p32, p33, p34], [p40, p41, p42, p43, p44]] 2
   = Inr [[interp 2 [[p11, p12], [p21, p22]] 3 3]]"
  by (simp add: clipped_zoom_def height_def width_def np_round_half Let_def slice_mid zoom_2x2 slice_neg)


end
